theory Spec2Isabelle
  imports Main "HOL-Library.Sublist" "HOL-Library.Word"
begin

section \<open>Go strings\<close>

text \<open>
  A Go string is a sequence of bytes; it is modelled as a \<open>string\<close> (a list of
  \<open>char\<close>, one per byte). The functions of package \<open>strings\<close> that the operator
  calls are written out on bytes. Where the library looks at Unicode tables for
  bytes beyond ASCII (\<open>strings.ToUpper\<close>), that path is a parameter.
\<close>

definition isASCII :: "string \<Rightarrow> bool" where
  "isASCII s = list_all (\<lambda>c. (of_char c :: nat) < 128) s"

definition upperByte :: "char \<Rightarrow> char" where
  "upperByte c =
     (if 97 \<le> (of_char c :: nat) \<and> (of_char c :: nat) \<le> 122
      then char_of ((of_char c :: nat) - 32) else c)"

text \<open>
  \<open>strings.ToUpper\<close>: an ASCII-only string is mapped byte by byte; any other string
  goes through \<open>strings.Map(unicode.ToUpper, s)\<close>, here the parameter \<open>uni\<close>.
\<close>
definition ToUpper :: "(string \<Rightarrow> string) \<Rightarrow> string \<Rightarrow> string" where
  "ToUpper uni s = (if isASCII s then map upperByte s else uni s)"

text \<open>
  \<open>strings.ReplaceAll(s, old, new)\<close>: non-overlapping occurrences of \<open>old\<close>,
  left to right. For an empty \<open>old\<close> Go inserts \<open>new\<close> before every rune and at the
  end; the operator only ever passes the literals \<open>"-"\<close> and \<open>"{name}"\<close>, and the
  empty case is modelled per byte.
\<close>
function ReplaceAll :: "string \<Rightarrow> string \<Rightarrow> string \<Rightarrow> string" where
  "ReplaceAll s old new =
     (if old = [] then concat (map (\<lambda>c. new @ [c]) s) @ new
      else if s = [] then []
      else if prefix old s then new @ ReplaceAll (drop (length old) s) old new
      else hd s # ReplaceAll (tl s) old new)"
  by pat_completeness auto
termination
  by (relation "measure (\<lambda>(s, old, new). length s)") (auto simp: neq_Nil_conv)

declare ReplaceAll.simps [simp del]

text \<open>\<open>strings.Contains\<close>, \<open>strings.HasSuffix\<close>, \<open>strings.TrimSuffix\<close>.\<close>

fun Contains :: "string \<Rightarrow> string \<Rightarrow> bool" where
  "Contains [] sub = (sub = [])"
| "Contains (c # cs) sub = (prefix sub (c # cs) \<or> Contains cs sub)"

definition HasSuffix :: "string \<Rightarrow> string \<Rightarrow> bool" where
  "HasSuffix s suf = suffix suf s"

definition TrimSuffix :: "string \<Rightarrow> string \<Rightarrow> string" where
  "TrimSuffix s suf = (if HasSuffix s suf then take (length s - length suf) s else s)"

text \<open>
  \<open>strings.Split(s, sep)\<close>: the pieces between the occurrences of \<open>sep\<close>, at least
  one piece for a non-empty \<open>sep\<close>. (An empty \<open>sep\<close> splits after every rune; the
  operator passes \<open>","\<close>, and that case is modelled per byte.)
\<close>
function Split :: "string \<Rightarrow> string \<Rightarrow> string list" where
  "Split s sep =
     (if sep = [] then map (\<lambda>c. [c]) s
      else if s = [] then [[]]
      else if prefix sep s then [] # Split (drop (length sep) s) sep
      else (case Split (tl s) sep of
              x # xs \<Rightarrow> (hd s # x) # xs
            | [] \<Rightarrow> [[hd s]]))"
  by pat_completeness auto
termination
  by (relation "measure (\<lambda>(s, sep). length s)") (auto simp: neq_Nil_conv)

declare Split.simps [simp del]

text \<open>
  \<open>strings.TrimSpace\<close> removes the leading and the trailing white space runes:
  the six ASCII ones and, in their UTF-8 encodings, U+0085, U+00A0, U+1680,
  U+2000 to U+200A, U+2028, U+2029, U+202F, U+205F and U+3000.
\<close>
definition spaceRunes :: "string list" where
  "spaceRunes =
     [[CHR 0x09], [CHR 0x0A], [CHR 0x0B], [CHR 0x0C], [CHR 0x0D], [CHR 0x20],
      [CHR 0xC2, CHR 0x85], [CHR 0xC2, CHR 0xA0], [CHR 0xE1, CHR 0x9A, CHR 0x80],
      [CHR 0xE2, CHR 0x80, CHR 0x80], [CHR 0xE2, CHR 0x80, CHR 0x81],
      [CHR 0xE2, CHR 0x80, CHR 0x82], [CHR 0xE2, CHR 0x80, CHR 0x83],
      [CHR 0xE2, CHR 0x80, CHR 0x84], [CHR 0xE2, CHR 0x80, CHR 0x85],
      [CHR 0xE2, CHR 0x80, CHR 0x86], [CHR 0xE2, CHR 0x80, CHR 0x87],
      [CHR 0xE2, CHR 0x80, CHR 0x88], [CHR 0xE2, CHR 0x80, CHR 0x89],
      [CHR 0xE2, CHR 0x80, CHR 0x8A], [CHR 0xE2, CHR 0x80, CHR 0xA8],
      [CHR 0xE2, CHR 0x80, CHR 0xA9], [CHR 0xE2, CHR 0x80, CHR 0xAF],
      [CHR 0xE2, CHR 0x81, CHR 0x9F], [CHR 0xE3, CHR 0x80, CHR 0x80]]"

function TrimLeftSpace :: "string \<Rightarrow> string" where
  "TrimLeftSpace s =
     (case find (\<lambda>q. prefix q s) spaceRunes of
        None \<Rightarrow> s
      | Some q \<Rightarrow> if q = [] then s else TrimLeftSpace (drop (length q) s))"
  by pat_completeness auto
termination
  by (relation "measure length") (auto simp: find_Some_iff prefix_def)

function TrimRightSpace :: "string \<Rightarrow> string" where
  "TrimRightSpace s =
     (case find (\<lambda>q. suffix q s) spaceRunes of
        None \<Rightarrow> s
      | Some q \<Rightarrow> if q = [] then s else TrimRightSpace (take (length s - length q) s))"
  by pat_completeness auto
termination
  by (relation "measure length") (auto simp: find_Some_iff suffix_def)

declare TrimLeftSpace.simps [simp del] TrimRightSpace.simps [simp del]

definition TrimSpace :: "string \<Rightarrow> string" where
  "TrimSpace s = TrimRightSpace (TrimLeftSpace s)"

section \<open>Derived resource names (internal/resources/naming.go)\<close>

definition PVCPrefix :: string where "PVCPrefix = ''model-''"
definition JobPrefix :: string where "JobPrefix = ''model-download-''"
definition VolumePrefix :: string where "VolumePrefix = ''model-''"

definition PVCName :: "string \<Rightarrow> string" where
  "PVCName modelName = PVCPrefix @ modelName"

definition JobName :: "string \<Rightarrow> string" where
  "JobName modelName = JobPrefix @ modelName"

definition VolumeName :: "string \<Rightarrow> string" where
  "VolumeName modelName = VolumePrefix @ modelName"

definition EnvVarPrefix :: "(string \<Rightarrow> string) \<Rightarrow> string \<Rightarrow> string" where
  "EnvVarPrefix uni modelName =
     (let name = ToUpper uni modelName;
          name = ReplaceAll name ''-'' ''_''
      in ''MODEL_'' @ name)"

definition DefaultMountPath :: "string \<Rightarrow> string" where
  "DefaultMountPath modelName = ''/models/'' @ modelName"


section \<open>The Model resource (api/v1alpha1/model_types.go)\<close>

text \<open>
  \<open>ModelPhase\<close> is a Go string type with four named constants; a stored phase can
  be any string, so the phase stays a string here.
\<close>
type_synonym ModelPhase = string

abbreviation ModelPhasePending :: ModelPhase where "ModelPhasePending \<equiv> ''Pending''"
abbreviation ModelPhaseDownloading :: ModelPhase where "ModelPhaseDownloading \<equiv> ''Downloading''"
abbreviation ModelPhaseReady :: ModelPhase where "ModelPhaseReady \<equiv> ''Ready''"
abbreviation ModelPhaseFailed :: ModelPhase where "ModelPhaseFailed \<equiv> ''Failed''"

record HuggingFaceSource =
  RepoID :: string
  Revision :: string

record URLSource =
  urlURL :: string

record S3Source =
  Bucket :: string
  Key :: string
  Endpoint :: string
  Region :: string

record GitSource =
  gitURL :: string
  gitRef :: string

text \<open>The four source pointers; \<open>None\<close> is Go's \<open>nil\<close>.\<close>
record ModelSource =
  HuggingFace :: "HuggingFaceSource option"
  URL :: "URLSource option"
  S3 :: "S3Source option"
  Git :: "GitSource option"

record StorageSpec =
  StorageClass :: string
  Size :: string
  AccessModes :: "string list"

record ModelSpec =
  Source :: ModelSource
  Storage :: StorageSpec
  Version :: string
  NodeSelector :: "(string \<times> string) list"

text \<open>
  \<open>metav1.Time\<close> is a point in time; \<open>0\<close> stands for the zero time, the only value
  for which \<open>IsZero\<close> holds.
\<close>
type_synonym Time = nat

abbreviation ConditionTrue :: string where "ConditionTrue \<equiv> ''True''"
abbreviation ConditionFalse :: string where "ConditionFalse \<equiv> ''False''"

record Condition =
  condType :: string
  condStatus :: string
  condObservedGeneration :: int
  LastTransitionTime :: Time
  Reason :: string
  condMessage :: string

record ModelStatus =
  Phase :: ModelPhase
  statusPVCName :: string
  Message :: string
  Progress :: int
  Conditions :: "Condition list"
  ObservedGeneration :: int

record Model =
  Name :: string
  Namespace :: string
  Generation :: int
  Spec :: ModelSpec
  Status :: ModelStatus

section \<open>Owned resources\<close>

text \<open>
  The claim and the Job as far as the operator builds and reads them. Labels are
  represented by the instance label; the container of the Job by its name and
  image (its shell script is not inspected by the reconciler and is left out).
\<close>
record PersistentVolumeClaim =
  pvcName :: string
  pvcNamespace :: string
  pvcInstance :: string
  pvcAccessModes :: "string list"
  pvcStorageClass :: string
  pvcRequest :: string
  pvcOwner :: "string option"

record JobCondition =
  jcType :: string
  jcStatus :: string
  jcReason :: string
  jcMessage :: string

text \<open>The counters are Go \<open>int32\<close>; they are read through \<open>sint\<close>.\<close>
record JobStatus =
  Succeeded :: "32 word"
  Failed :: "32 word"
  Active :: "32 word"
  jobConditions :: "JobCondition list"

record Job =
  jobName :: string
  jobNamespace :: string
  jobInstance :: string
  jobContainerName :: string
  jobImage :: string
  jobClaimName :: string
  jobNodeSelector :: "(string \<times> string) list"
  jobOwner :: "string option"
  jobStatus :: JobStatus

abbreviation JobFailed :: string where "JobFailed \<equiv> ''Failed''"

section \<open>Resource builders (internal/resources/pvc.go, job.go)\<close>

text \<open>
  \<open>BuildPVC\<close> calls \<open>resource.MustParse\<close> on the storage size, which panics on a
  string that is not a quantity, and stores the parsed quantity. The parser is
  the parameter \<open>parseQuantity\<close>: it gives the quantity in its canonical form, or
  \<open>None\<close> where \<open>resource.ParseQuantity\<close> returns an error. The panic is the
  value \<open>None\<close> of \<open>BuildPVC\<close>.
\<close>
definition BuildPVC :: "(string \<Rightarrow> string option) \<Rightarrow> Model \<Rightarrow> PersistentVolumeClaim option" where
  "BuildPVC parseQuantity model =
     (let storageClass = StorageClass (Storage (Spec model));
          accessModes = AccessModes (Storage (Spec model));
          accessModes = (if length accessModes = 0 then [''ReadWriteOnce''] else accessModes)
      in case parseQuantity (Size (Storage (Spec model))) of
           None \<Rightarrow> None
         | Some quantity \<Rightarrow>
             Some \<lparr> pvcName = PVCName (Name model),
                    pvcNamespace = Namespace model,
                    pvcInstance = Name model,
                    pvcAccessModes = accessModes,
                    pvcStorageClass = storageClass,
                    pvcRequest = quantity,
                    pvcOwner = None \<rparr>)"

abbreviation huggingFaceImage :: string where "huggingFaceImage \<equiv> ''python:3.11-slim''"
abbreviation s3Image :: string where "s3Image \<equiv> ''amazon/aws-cli:latest''"
abbreviation urlImage :: string where "urlImage \<equiv> ''curlimages/curl:latest''"
abbreviation gitImage :: string where "gitImage \<equiv> ''alpine/git:latest''"

definition emptyJobStatus :: JobStatus where
  "emptyJobStatus = \<lparr> Succeeded = 0, Failed = 0, Active = 0, jobConditions = [] \<rparr>"

text \<open>
  \<open>BuildDownloadJob\<close>: the first non-nil source pointer, in the order of the
  switch, picks the container; with no pointer set the builder returns the error.
\<close>
definition BuildDownloadJob :: "Model \<Rightarrow> string + Job" where
  "BuildDownloadJob model =
     (let source = Source (Spec model);
          job = (\<lambda>image.
             \<lparr> jobName = JobName (Name model),
               jobNamespace = Namespace model,
               jobInstance = Name model,
               jobContainerName = ''downloader'',
               jobImage = image,
               jobClaimName = PVCName (Name model),
               jobNodeSelector = (if length (NodeSelector (Spec model)) > 0
                                  then NodeSelector (Spec model) else []),
               jobOwner = None,
               jobStatus = emptyJobStatus \<rparr>)
      in if HuggingFace source \<noteq> None then Inr (job huggingFaceImage)
         else if S3 source \<noteq> None then Inr (job s3Image)
         else if URL source \<noteq> None then Inr (job urlImage)
         else if Git source \<noteq> None then Inr (job gitImage)
         else Inl (''no source specified in model '' @ Name model))"


section \<open>The API client\<close>

text \<open>
  The stored objects of the cluster, keyed by namespace and name, and the errors
  the client can return. \<open>IsNotFound\<close> is the test of \<open>apierrors.IsNotFound\<close>.
\<close>
type_synonym NamespacedName = "string \<times> string"

record Cluster =
  models :: "NamespacedName \<rightharpoonup> Model"
  pvcs :: "NamespacedName \<rightharpoonup> PersistentVolumeClaim"
  jobs :: "NamespacedName \<rightharpoonup> Job"

datatype api_error = NotFound | AlreadyExists | OtherError string

definition IsNotFound :: "api_error \<Rightarrow> bool" where
  "IsNotFound e = (e = NotFound)"

text \<open>
  The reconciler with what surrounds it: for each client call of a pass, the error
  the call meets if it does not go through (a store that is unreachable, a
  conflict, a quota; never "not found", which comes from the store); the error
  of \<open>SetControllerReference\<close> when the Scheme does not know the Model kind;
  the clock read by \<open>metav1.Now\<close>; the parser \<open>resource.ParseQuantity\<close>; and the
  text \<open>Error()\<close> gives for an error.
\<close>
record ModelReconciler =
  getModelFault :: "string option"
  getPVCFault :: "string option"
  createPVCFault :: "string option"
  getJobFault :: "string option"
  createJobFault :: "string option"
  statusUpdateFault :: "string option"
  ownerRefFault :: "string option"
  Now :: Time
  parseQuantity :: "string \<Rightarrow> string option"
  errorString :: "api_error \<Rightarrow> string"

definition clientGet :: "string option \<Rightarrow> ('k \<rightharpoonup> 'v) \<Rightarrow> 'k \<Rightarrow> api_error + 'v" where
  "clientGet fault store key =
     (case fault of
        Some e \<Rightarrow> Inl (OtherError e)
      | None \<Rightarrow> (case store key of None \<Rightarrow> Inl NotFound | Some v \<Rightarrow> Inr v))"

definition clientCreate ::
  "string option \<Rightarrow> ('k \<rightharpoonup> 'v) \<Rightarrow> 'k \<Rightarrow> 'v \<Rightarrow> api_error + ('k \<rightharpoonup> 'v)" where
  "clientCreate fault store key v =
     (case fault of
        Some e \<Rightarrow> Inl (OtherError e)
      | None \<Rightarrow> (case store key of Some _ \<Rightarrow> Inl AlreadyExists | None \<Rightarrow> Inr (store(key \<mapsto> v))))"

text \<open>
  \<open>Status().Update\<close> replaces the status of the stored Model and nothing else; it
  fails when the Model is gone.
\<close>
definition statusUpdate :: "ModelReconciler \<Rightarrow> Cluster \<Rightarrow> Model \<Rightarrow> api_error + Cluster" where
  "statusUpdate r c model =
     (case statusUpdateFault r of
        Some e \<Rightarrow> Inl (OtherError e)
      | None \<Rightarrow>
          (case models c (Namespace model, Name model) of
             None \<Rightarrow> Inl NotFound
           | Some stored \<Rightarrow>
               Inr (c\<lparr>models := (models c)((Namespace model, Name model) \<mapsto>
                                     stored\<lparr>Status := Status model\<rparr>)\<rparr>)))"

section \<open>Status conditions\<close>

text \<open>
  \<open>meta.SetStatusCondition\<close> of k8s.io/apimachinery, as the reconciler uses it: the
  first condition of the same type is updated in place, and its transition time
  only when the status differs; with no such condition the new one is appended.
  \<open>now\<close> is the clock the function reads when the new condition carries the zero
  time.
\<close>
fun FindStatusCondition :: "Condition list \<Rightarrow> string \<Rightarrow> Condition option" where
  "FindStatusCondition [] t = None"
| "FindStatusCondition (c # cs) t = (if condType c = t then Some c else FindStatusCondition cs t)"

fun SetStatusCondition :: "Time \<Rightarrow> Condition list \<Rightarrow> Condition \<Rightarrow> Condition list" where
  "SetStatusCondition now [] new =
     [new\<lparr>LastTransitionTime :=
            (if LastTransitionTime new = 0 then now else LastTransitionTime new)\<rparr>]"
| "SetStatusCondition now (c # cs) new =
     (if condType c = condType new
      then (let c1 = (if condStatus c \<noteq> condStatus new
                      then c\<lparr>condStatus := condStatus new,
                             LastTransitionTime :=
                               (if LastTransitionTime new \<noteq> 0 then LastTransitionTime new else now)\<rparr>
                      else c)
            in c1\<lparr>Reason := Reason new, condMessage := condMessage new,
                  condObservedGeneration := condObservedGeneration new\<rparr> # cs)
      else c # SetStatusCondition now cs new)"

section \<open>The reconciler (internal/controller/model\_controller.go)\<close>

text \<open>\<open>time.Duration\<close> counts nanoseconds.\<close>
type_synonym Duration = int

abbreviation Second :: Duration where "Second \<equiv> 1000000000"
abbreviation Minute :: Duration where "Minute \<equiv> 60 * Second"

definition requeuePending :: Duration where "requeuePending = 10 * Second"
definition requeueDownloading :: Duration where "requeueDownloading = 15 * Second"
definition requeueReady :: Duration where "requeueReady = 5 * Minute"
definition requeueFailed :: Duration where "requeueFailed = 1 * Minute"

abbreviation conditionTypeReady :: string where "conditionTypeReady \<equiv> ''Ready''"

record Result =
  RequeueAfter :: Duration

text \<open>
  What a pass returns beside the cluster it leaves: a \<open>Result\<close>, or the error handed
  to the framework. A panic of \<open>resource.MustParse\<close> ends the pass as well.
\<close>
datatype reconcile_error = ClientError api_error | OwnerRefError string | Panic string

type_synonym outcome = "Cluster \<times> (reconcile_error + Result)"

definition updateStatusWithProgress ::
  "ModelReconciler \<Rightarrow> Cluster \<Rightarrow> Model \<Rightarrow> ModelPhase \<Rightarrow> string \<Rightarrow> int \<Rightarrow> outcome" where
  "updateStatusWithProgress r c model phase message progress =
     (let st = (Status model)\<lparr>Phase := phase, Message := message, Progress := progress,
                              statusPVCName := PVCName (Name model),
                              ObservedGeneration := Generation model\<rparr>;
          condition = \<lparr> condType = conditionTypeReady, condStatus = [],
                        condObservedGeneration = Generation model,
                        LastTransitionTime = Now r, Reason = [], condMessage = [] \<rparr>;
          condition =
            (if phase = ModelPhaseReady
             then condition\<lparr>condStatus := ConditionTrue, Reason := ''DownloadComplete'',
                            condMessage := message\<rparr>
             else if phase = ModelPhaseFailed
             then condition\<lparr>condStatus := ConditionFalse, Reason := ''DownloadFailed'',
                            condMessage := message\<rparr>
             else condition\<lparr>condStatus := ConditionFalse, Reason := ''InProgress'',
                            condMessage := message\<rparr>);
          model = model\<lparr>Status := st\<lparr>Conditions :=
                     SetStatusCondition (Now r) (Conditions st) condition\<rparr>\<rparr>
      in case statusUpdate r c model of
           Inl err \<Rightarrow> (c, Inl (ClientError err))
         | Inr c' \<Rightarrow>
             (let requeueAfter =
                    (if phase = ModelPhasePending then requeuePending
                     else if phase = ModelPhaseDownloading then requeueDownloading
                     else if phase = ModelPhaseReady then requeueReady
                     else if phase = ModelPhaseFailed then requeueFailed
                     else 0)
              in (c', Inr \<lparr> RequeueAfter = requeueAfter \<rparr>)))"

definition updateStatus ::
  "ModelReconciler \<Rightarrow> Cluster \<Rightarrow> Model \<Rightarrow> ModelPhase \<Rightarrow> string \<Rightarrow> outcome" where
  "updateStatus r c model phase message =
     updateStatusWithProgress r c model phase message (Progress (Status model))"


text \<open>The verb \<open>%d\<close> of \<open>fmt.Sprintf\<close>: a signed decimal numeral.\<close>
function decimalNat :: "nat \<Rightarrow> string" where
  "decimalNat n =
     (if n < 10 then [char_of (48 + n)]
      else decimalNat (n div 10) @ [char_of (48 + n mod 10)])"
  by pat_completeness auto
termination
  by (relation "measure id") auto

declare decimalNat.simps [simp del]

definition decimal :: "int \<Rightarrow> string" where
  "decimal i = (if i < 0 then ''-'' @ decimalNat (nat (- i)) else decimalNat (nat i))"

text \<open>
  \<open>reconcilePending\<close>, second half: build the Job, look it up, create it, and move
  to Downloading. A Job that cannot be built sends the Model to Failed.
\<close>
definition reconcilePendingJob :: "ModelReconciler \<Rightarrow> Cluster \<Rightarrow> Model \<Rightarrow> outcome" where
  "reconcilePendingJob r c model =
     (case BuildDownloadJob model of
        Inl err \<Rightarrow>
          updateStatus r c model ModelPhaseFailed (''Failed to build download Job: '' @ err)
      | Inr job \<Rightarrow>
          (case ownerRefFault r of
             Some err \<Rightarrow> (c, Inl (OwnerRefError err))
           | None \<Rightarrow>
               (let job = job\<lparr>jobOwner := Some (Name model)\<rparr>;
                    key = (jobNamespace job, jobName job)
                in case clientGet (getJobFault r) (jobs c) key of
                     Inl err \<Rightarrow>
                       if IsNotFound err
                       then (case clientCreate (createJobFault r) (jobs c) key job of
                               Inl err \<Rightarrow>
                                 updateStatus r c model ModelPhasePending
                                   (''Failed to create Job: '' @ errorString r err)
                             | Inr js \<Rightarrow>
                                 updateStatus r (c\<lparr>jobs := js\<rparr>) model ModelPhaseDownloading
                                   ''Download started'')
                       else (c, Inl (ClientError err))
                   | Inr existingJob \<Rightarrow>
                       updateStatus r c model ModelPhaseDownloading ''Download started'')))"

text \<open>
  \<open>reconcilePending\<close>: build the claim (which may panic), set its owner, look it
  up, create it when it is not found, then go on with the Job.
\<close>
definition reconcilePending :: "ModelReconciler \<Rightarrow> Cluster \<Rightarrow> Model \<Rightarrow> outcome" where
  "reconcilePending r c model =
     (case BuildPVC (parseQuantity r) model of
        None \<Rightarrow> (c, Inl (Panic ''resource.MustParse''))
      | Some pvc \<Rightarrow>
          (case ownerRefFault r of
             Some err \<Rightarrow> (c, Inl (OwnerRefError err))
           | None \<Rightarrow>
               (let pvc = pvc\<lparr>pvcOwner := Some (Name model)\<rparr>;
                    key = (pvcNamespace pvc, pvcName pvc)
                in case clientGet (getPVCFault r) (pvcs c) key of
                     Inl err \<Rightarrow>
                       if IsNotFound err
                       then (case clientCreate (createPVCFault r) (pvcs c) key pvc of
                               Inl err \<Rightarrow>
                                 updateStatus r c model ModelPhasePending
                                   (''Failed to create PVC: '' @ errorString r err)
                             | Inr ps \<Rightarrow> reconcilePendingJob r (c\<lparr>pvcs := ps\<rparr>) model)
                       else (c, Inl (ClientError err))
                   | Inr existingPVC \<Rightarrow> reconcilePendingJob r c model)))"

text \<open>
  \<open>reconcileDownloading\<close>: read the Job. The loop over the Job's conditions returns
  at the first one of type Failed with status True, and runs only when the failed
  counter is positive. When the Job is still running, the status is written only
  if the stored claim name is empty.
\<close>
definition reconcileDownloading :: "ModelReconciler \<Rightarrow> Cluster \<Rightarrow> Model \<Rightarrow> outcome" where
  "reconcileDownloading r c model =
     (let jobName = JobName (Name model)
      in case clientGet (getJobFault r) (jobs c) (Namespace model, jobName) of
           Inl err \<Rightarrow>
             if IsNotFound err
             then updateStatus r c model ModelPhasePending ''Job not found, recreating''
             else (c, Inl (ClientError err))
         | Inr job \<Rightarrow>
             if 0 < sint (Succeeded (jobStatus job))
             then updateStatusWithProgress r c model ModelPhaseReady ''Download complete'' 100
             else
               (case (if 0 < sint (Failed (jobStatus job))
                      then find (\<lambda>cond. jcType cond = JobFailed \<and> jcStatus cond = ConditionTrue)
                             (jobConditions (jobStatus job))
                      else None) of
                  Some cond \<Rightarrow>
                    updateStatus r c model ModelPhaseFailed
                      (''Download failed: '' @ jcMessage cond)
                | None \<Rightarrow>
                    (let message =
                           (if 0 < sint (Active (jobStatus job))
                            then ''Download in progress (active pods: ''
                                 @ decimal (sint (Active (jobStatus job))) @ '')''
                            else ''Download in progress'')
                     in if statusPVCName (Status model) = []
                        then (let model = model\<lparr>Status := (Status model)
                                     \<lparr>statusPVCName := PVCName (Name model),
                                      Message := message,
                                      ObservedGeneration := Generation model\<rparr>\<rparr>
                              in case statusUpdate r c model of
                                   Inl err \<Rightarrow> (c, Inl (ClientError err))
                                 | Inr c' \<Rightarrow> (c', Inr \<lparr> RequeueAfter = requeueDownloading \<rparr>))
                        else (c, Inr \<lparr> RequeueAfter = requeueDownloading \<rparr>))))"

definition reconcileReady :: "ModelReconciler \<Rightarrow> Cluster \<Rightarrow> Model \<Rightarrow> outcome" where
  "reconcileReady r c model =
     (let pvcName = PVCName (Name model)
      in case clientGet (getPVCFault r) (pvcs c) (Namespace model, pvcName) of
           Inl err \<Rightarrow>
             if IsNotFound err
             then updateStatus r c model ModelPhasePending ''PVC was deleted, recreating''
             else (c, Inl (ClientError err))
         | Inr pvc \<Rightarrow> (c, Inr \<lparr> RequeueAfter = requeueReady \<rparr>))"

definition reconcileFailed :: "ModelReconciler \<Rightarrow> Cluster \<Rightarrow> Model \<Rightarrow> outcome" where
  "reconcileFailed r c model =
     (let jobName = JobName (Name model)
      in case clientGet (getJobFault r) (jobs c) (Namespace model, jobName) of
           Inl err \<Rightarrow>
             if IsNotFound err
             then updateStatus r c model ModelPhasePending ''Retrying download''
             else (c, Inl (ClientError err))
         | Inr job \<Rightarrow> (c, Inr \<lparr> RequeueAfter = requeueFailed \<rparr>))"

text \<open>
  \<open>Reconcile\<close>: fetch the Model (a Model that is gone ends the pass with the empty
  Result), default an empty phase to Pending, and dispatch on the phase.
\<close>
definition Reconcile :: "ModelReconciler \<Rightarrow> Cluster \<Rightarrow> NamespacedName \<Rightarrow> outcome" where
  "Reconcile r c req =
     (case clientGet (getModelFault r) (models c) req of
        Inl err \<Rightarrow>
          if IsNotFound err then (c, Inr \<lparr> RequeueAfter = 0 \<rparr>)
          else (c, Inl (ClientError err))
      | Inr model \<Rightarrow>
          (let phase = Phase (Status model);
               phase = (if phase = [] then ModelPhasePending else phase)
           in if phase = ModelPhasePending then reconcilePending r c model
              else if phase = ModelPhaseDownloading then reconcileDownloading r c model
              else if phase = ModelPhaseReady then reconcileReady r c model
              else if phase = ModelPhaseFailed then reconcileFailed r c model
              else updateStatus r c model ModelPhasePending ''Unknown phase, resetting''))"

text \<open>The phase stored for a Model, if the Model is stored.\<close>
definition storedPhase :: "Cluster \<Rightarrow> NamespacedName \<Rightarrow> ModelPhase option" where
  "storedPhase c key = map_option (\<lambda>m. Phase (Status m)) (models c key)"

definition storedStatus :: "Cluster \<Rightarrow> NamespacedName \<Rightarrow> ModelStatus option" where
  "storedStatus c key = map_option Status (models c key)"


section \<open>The admission webhook (internal/webhook/pod\_webhook.go)\<close>

abbreviation AnnotationInject :: string where
  "AnnotationInject \<equiv> ''models.main-currents.news/inject''"
abbreviation AnnotationMountPath :: string where
  "AnnotationMountPath \<equiv> ''models.main-currents.news/mount-path''"
abbreviation AnnotationReadOnly :: string where
  "AnnotationReadOnly \<equiv> ''models.main-currents.news/read-only''"
abbreviation AnnotationContainer :: string where
  "AnnotationContainer \<equiv> ''models.main-currents.news/container''"
abbreviation AnnotationInjectEnv :: string where
  "AnnotationInjectEnv \<equiv> ''models.main-currents.news/inject-env''"
abbreviation LabelInjected :: string where
  "LabelInjected \<equiv> ''models.main-currents.news/injected''"

record injectionOptions =
  MountPath :: string
  ReadOnly :: bool
  ContainerName :: string
  InjectEnv :: bool

text \<open>
  The Pod as far as the webhook reads and changes it. A nil map and an empty map
  read the same and marshal the same, so labels and annotations are maps.
\<close>
record VolumeMount =
  vmName :: string
  vmMountPath :: string
  vmReadOnly :: bool

record EnvVar =
  envName :: string
  envValue :: string

record Container =
  containerName :: string
  VolumeMounts :: "VolumeMount list"
  Env :: "EnvVar list"

datatype VolumeSource = PersistentVolumeClaimSource string bool | OtherVolumeSource

record Volume =
  volName :: string
  volSource :: VolumeSource

record Pod =
  Labels :: "string \<rightharpoonup> string"
  Annotations :: "string \<rightharpoonup> string"
  Volumes :: "Volume list"
  Containers :: "Container list"

text \<open>
  The admission request with the outcome of decoding its object, and the
  response: an error with its HTTP code, allowed or denied with a message, or
  allowed with the patch that turns the request's object into the given Pod.
\<close>
record Request =
  reqName :: string
  reqNamespace :: string
  reqObject :: "string + Pod"

datatype Response = Errored nat string | Allowed string | Denied string | Patched Pod

text \<open>
  The injector with what surrounds it: the error its client meets on a read that
  does not go through, the error of \<open>json.Marshal\<close>, the renderings of the verbs
  \<open>%q\<close> (of a string) and \<open>%v\<close> (of an error), and the Unicode path of
  \<open>strings.ToUpper\<close>.
\<close>
record ModelInjector =
  getFault :: "string option"
  marshalFault :: "string option"
  quote :: "string \<Rightarrow> string"
  errText :: "api_error \<Rightarrow> string"
  unicodeUpper :: "string \<Rightarrow> string"

definition parseOptions :: "(string \<rightharpoonup> string) \<Rightarrow> injectionOptions" where
  "parseOptions annotations =
     (let opts = \<lparr> MountPath = [], ReadOnly = True, ContainerName = [], InjectEnv = True \<rparr>;
          opts = (case annotations AnnotationMountPath of
                    Some v \<Rightarrow> opts\<lparr>MountPath := v\<rparr> | None \<Rightarrow> opts);
          opts = (case annotations AnnotationReadOnly of
                    Some v \<Rightarrow> opts\<lparr>ReadOnly := (v \<noteq> ''false'')\<rparr> | None \<Rightarrow> opts);
          opts = (case annotations AnnotationContainer of
                    Some v \<Rightarrow> opts\<lparr>ContainerName := v\<rparr> | None \<Rightarrow> opts);
          opts = (case annotations AnnotationInjectEnv of
                    Some v \<Rightarrow> opts\<lparr>InjectEnv := (v \<noteq> ''false'')\<rparr> | None \<Rightarrow> opts)
      in opts)"

definition injectVolume :: "Pod \<Rightarrow> Model \<Rightarrow> Pod" where
  "injectVolume pod model =
     (let volumeName = VolumeName (Name model);
          pvcName = PVCName (Name model)
      in if list_ex (\<lambda>v. volName v = volumeName) (Volumes pod) then pod
         else pod\<lparr>Volumes := Volumes pod @
                [\<lparr> volName = volumeName,
                   volSource = PersistentVolumeClaimSource pvcName True \<rparr>]\<rparr>)"

text \<open>The loop that looks for the container of a given name: the first match.\<close>
fun containerIndex :: "Container list \<Rightarrow> string \<Rightarrow> nat option" where
  "containerIndex [] n = None"
| "containerIndex (c # cs) n =
     (if containerName c = n then Some 0 else map_option Suc (containerIndex cs n))"

definition injectVolumeMount ::
  "ModelInjector \<Rightarrow> Pod \<Rightarrow> Model \<Rightarrow> injectionOptions \<Rightarrow> string + Pod" where
  "injectVolumeMount mi pod model opts =
     (if length (Containers pod) = 0 then Inl ''pod has no containers''
      else
        (let volumeName = VolumeName (Name model);
             mountPath = MountPath opts;
             mountPath =
               (if mountPath = [] then DefaultMountPath (Name model)
                else if Contains (MountPath opts) ''{name}''
                then ReplaceAll (MountPath opts) ''{name}'' (Name model)
                else if \<not> HasSuffix mountPath (Name model)
                then TrimSuffix mountPath ''/'' @ ''/'' @ Name model
                else mountPath);
             mount = \<lparr> vmName = volumeName, vmMountPath = mountPath,
                       vmReadOnly = ReadOnly opts \<rparr>
         in case (if ContainerName opts \<noteq> []
                  then containerIndex (Containers pod) (ContainerName opts)
                  else Some 0) of
              None \<Rightarrow> Inl (''container '' @ quote mi (ContainerName opts) @ '' not found'')
            | Some containerIdx \<Rightarrow>
                (let target = Containers pod ! containerIdx
                 in if list_ex (\<lambda>m. vmName m = volumeName) (VolumeMounts target) then Inr pod
                    else Inr (pod\<lparr>Containers := (Containers pod)
                           [containerIdx := target\<lparr>VolumeMounts :=
                               VolumeMounts target @ [mount]\<rparr>]\<rparr>))))"

text \<open>
  \<open>injectEnvVars\<close>: the variables are built in order, the source pair by the first
  non-nil pointer among HuggingFace, S3 and URL; a container name that is not
  found falls back to the first container; a variable whose name the container
  already has is skipped.
\<close>
definition injectEnvVars ::
  "ModelInjector \<Rightarrow> Pod \<Rightarrow> Model \<Rightarrow> injectionOptions \<Rightarrow> string + Pod" where
  "injectEnvVars mi pod model opts =
     (if length (Containers pod) = 0 then Inl ''pod has no containers''
      else
        (let prefix = EnvVarPrefix (unicodeUpper mi) (Name model);
             mountPath = MountPath opts;
             mountPath =
               (if mountPath = [] then DefaultMountPath (Name model)
                else if Contains (MountPath opts) ''{name}''
                then ReplaceAll (MountPath opts) ''{name}'' (Name model)
                else if \<not> HasSuffix mountPath (Name model)
                then TrimSuffix mountPath ''/'' @ ''/'' @ Name model
                else mountPath);
             envVars = [\<lparr> envName = prefix @ ''_NAME'', envValue = Name model \<rparr>,
                        \<lparr> envName = prefix @ ''_MOUNT_PATH'', envValue = mountPath \<rparr>];
             envVars = (if Version (Spec model) \<noteq> []
                        then envVars @ [\<lparr> envName = prefix @ ''_VERSION'',
                                          envValue = Version (Spec model) \<rparr>]
                        else envVars);
             source = Source (Spec model);
             envVars =
               (case HuggingFace source of
                  Some hf \<Rightarrow>
                    envVars @ [\<lparr> envName = prefix @ ''_SOURCE_TYPE'', envValue = ''huggingface'' \<rparr>,
                               \<lparr> envName = prefix @ ''_REPO_ID'', envValue = RepoID hf \<rparr>]
                | None \<Rightarrow>
                    (case S3 source of
                       Some s3 \<Rightarrow>
                         envVars @ [\<lparr> envName = prefix @ ''_SOURCE_TYPE'', envValue = ''s3'' \<rparr>,
                                    \<lparr> envName = prefix @ ''_BUCKET'', envValue = Bucket s3 \<rparr>]
                     | None \<Rightarrow>
                         (case URL source of
                            Some u \<Rightarrow>
                              envVars @ [\<lparr> envName = prefix @ ''_SOURCE_TYPE'', envValue = ''url'' \<rparr>,
                                         \<lparr> envName = prefix @ ''_URL'', envValue = urlURL u \<rparr>]
                          | None \<Rightarrow> envVars)));
             containerIdx =
               (if ContainerName opts \<noteq> []
                then (case containerIndex (Containers pod) (ContainerName opts) of
                        Some i \<Rightarrow> i | None \<Rightarrow> 0)
                else 0);
             target = Containers pod ! containerIdx;
             existingEnvNames = map envName (Env target);
             env = Env target @ filter (\<lambda>e. envName e \<notin> set existingEnvNames) envVars
         in Inr (pod\<lparr>Containers := (Containers pod)
                   [containerIdx := target\<lparr>Env := env\<rparr>]\<rparr>)))"

text \<open>
  The body of the loop of \<open>Handle\<close> for one name of the list: \<open>Inl\<close> is the
  response the handler returns at once, \<open>Inr\<close> the Pod the loop goes on with.
\<close>
definition injectModel ::
  "ModelInjector \<Rightarrow> Cluster \<Rightarrow> string \<Rightarrow> injectionOptions \<Rightarrow> string \<Rightarrow> Pod \<Rightarrow> Response + Pod" where
  "injectModel mi c namespace opts name pod =
     (let name = TrimSpace name
      in if name = [] then Inr pod
         else
           (case clientGet (getFault mi) (models c) (namespace, name) of
              Inl err \<Rightarrow>
                Inl (Denied (''model '' @ quote mi name @ '' not found: '' @ errText mi err))
            | Inr model \<Rightarrow>
                if Phase (Status model) \<noteq> ModelPhaseReady
                then Inl (Denied (''model '' @ quote mi name @ '' is not ready (phase: ''
                                  @ Phase (Status model) @ '')''))
                else
                  (let pod = injectVolume pod model
                   in case injectVolumeMount mi pod model opts of
                        Inl err \<Rightarrow>
                          Inl (Denied (''failed to inject volume mount for model ''
                                       @ quote mi name @ '': '' @ err))
                      | Inr pod \<Rightarrow>
                          if InjectEnv opts
                          then (case injectEnvVars mi pod model opts of
                                  Inl err \<Rightarrow>
                                    Inl (Denied (''failed to inject env vars for model ''
                                                 @ quote mi name @ '': '' @ err))
                                | Inr pod \<Rightarrow> Inr pod)
                          else Inr pod)))"

fun injectModels ::
  "ModelInjector \<Rightarrow> Cluster \<Rightarrow> string \<Rightarrow> injectionOptions \<Rightarrow> string list \<Rightarrow> Pod \<Rightarrow> Response + Pod" where
  "injectModels mi c namespace opts [] pod = Inr pod"
| "injectModels mi c namespace opts (name # names) pod =
     (case injectModel mi c namespace opts name pod of
        Inl resp \<Rightarrow> Inl resp
      | Inr pod \<Rightarrow> injectModels mi c namespace opts names pod)"

abbreviation StatusBadRequest :: nat where "StatusBadRequest \<equiv> 400"
abbreviation StatusInternalServerError :: nat where "StatusInternalServerError \<equiv> 500"

definition Handle :: "ModelInjector \<Rightarrow> Cluster \<Rightarrow> Request \<Rightarrow> Response" where
  "Handle mi c req =
     (case reqObject req of
        Inl err \<Rightarrow> Errored StatusBadRequest err
      | Inr pod \<Rightarrow>
          if Labels pod LabelInjected = Some ''true'' then Allowed ''already injected''
          else
            (case Annotations pod AnnotationInject of
               None \<Rightarrow> Allowed ''no injection requested''
             | Some injectAnnotation \<Rightarrow>
                 if injectAnnotation = [] then Allowed ''no injection requested''
                 else
                   (let opts = parseOptions (Annotations pod);
                        modelNames = Split injectAnnotation '',''
                    in case injectModels mi c (reqNamespace req) opts modelNames pod of
                         Inl resp \<Rightarrow> resp
                       | Inr pod \<Rightarrow>
                           (let pod = pod\<lparr>Labels := (Labels pod)(LabelInjected \<mapsto> ''true'')\<rparr>
                            in case marshalFault mi of
                                 Some err \<Rightarrow> Errored StatusInternalServerError err
                               | None \<Rightarrow> Patched pod))))"

section \<open>Vocabulary of the properties\<close>

text \<open>How many of the four source pointers are set.\<close>
definition populatedVariants :: "ModelSource \<Rightarrow> nat" where
  "populatedVariants src =
     (if HuggingFace src \<noteq> None then 1 else 0) + (if S3 src \<noteq> None then 1 else 0)
     + (if URL src \<noteq> None then 1 else 0) + (if Git src \<noteq> None then 1 else 0)"

text \<open>Every read and write of a pass goes through.\<close>
definition noFaults :: "ModelReconciler \<Rightarrow> bool" where
  "noFaults r =
     (getModelFault r = None \<and> getPVCFault r = None \<and> createPVCFault r = None
      \<and> getJobFault r = None \<and> createJobFault r = None \<and> statusUpdateFault r = None)"

text \<open>The condition of type Ready in a status, if there is one.\<close>
definition readyCondition :: "ModelStatus \<Rightarrow> Condition option" where
  "readyCondition st = FindStatusCondition (Conditions st) conditionTypeReady"

text \<open>The status of a Model that no pass has touched: every field at its zero value.\<close>
definition emptyStatus :: ModelStatus where
  "emptyStatus = \<lparr> Phase = [], statusPVCName = [], Message = [], Progress = 0,
                    Conditions = [], ObservedGeneration = 0 \<rparr>"

text \<open>
  The claims and Jobs of the cluster once a Pending pass has looked each one up
  and created it when it was not found.
\<close>
definition pvcsAfterPending :: "ModelReconciler \<Rightarrow> Cluster \<Rightarrow> Model \<Rightarrow> (NamespacedName \<rightharpoonup> PersistentVolumeClaim)" where
  "pvcsAfterPending r c m =
     (case pvcs c (Namespace m, PVCName (Name m)) of
        Some _ \<Rightarrow> pvcs c
      | None \<Rightarrow> (case BuildPVC (parseQuantity r) m of None \<Rightarrow> pvcs c
                 | Some pvc \<Rightarrow> (pvcs c)((Namespace m, PVCName (Name m)) \<mapsto> pvc\<lparr>pvcOwner := Some (Name m)\<rparr>)))"

definition jobsAfterPending :: "Cluster \<Rightarrow> Model \<Rightarrow> (NamespacedName \<rightharpoonup> Job)" where
  "jobsAfterPending c m =
     (case jobs c (Namespace m, JobName (Name m)) of
        Some _ \<Rightarrow> jobs c
      | None \<Rightarrow> (case BuildDownloadJob m of Inl _ \<Rightarrow> jobs c
                 | Inr job \<Rightarrow> (jobs c)((Namespace m, JobName (Name m)) \<mapsto> job\<lparr>jobOwner := Some (Name m)\<rparr>)))"

text \<open>
  What \<open>reconcileDownloading\<close> reads off a Job that has not succeeded: the failed
  condition it acts on (looked for only when the failed counter is positive), and
  the progress message.
\<close>
definition failedCondition :: "JobStatus \<Rightarrow> JobCondition option" where
  "failedCondition st =
     (if 0 < sint (Failed st)
      then find (\<lambda>cond. jcType cond = JobFailed \<and> jcStatus cond = ConditionTrue) (jobConditions st)
      else None)"

definition progressMessage :: "JobStatus \<Rightarrow> string" where
  "progressMessage st =
     (if 0 < sint (Active st)
      then ''Download in progress (active pods: '' @ decimal (sint (Active st)) @ '')''
      else ''Download in progress'')"

text \<open>
  What holds of every status the reconciler writes, and of the empty status: a
  status in phase Downloading carries a claim name.
\<close>
definition statusInvariant :: "ModelStatus \<Rightarrow> bool" where
  "statusInvariant st = (Phase st = ModelPhaseDownloading \<longrightarrow> statusPVCName st \<noteq> [])"

text \<open>
  What a status write leaves in a status \<open>st'\<close>, for a Model fetched as \<open>m\<close>: the
  derived claim name, and a Ready condition whose status is True when the new
  phase is Ready and False otherwise, and whose transition time is the one
  fetched when the fetched Ready condition had the same status, and the current
  time otherwise.
\<close>
definition readyConditionWritten :: "ModelReconciler \<Rightarrow> Model \<Rightarrow> ModelStatus \<Rightarrow> bool" where
  "readyConditionWritten r m st' =
     (statusPVCName st' = PVCName (Name m)
      \<and> map_option condStatus (readyCondition st')
          = Some (if Phase st' = ModelPhaseReady then ConditionTrue else ConditionFalse)
      \<and> map_option LastTransitionTime (readyCondition st')
          = Some (case readyCondition (Status m) of
                    None \<Rightarrow> Now r
                  | Some old \<Rightarrow>
                      if condStatus old
                         = (if Phase st' = ModelPhaseReady then ConditionTrue else ConditionFalse)
                      then LastTransitionTime old else Now r))"

text \<open>
  The Models stored after a pass, against those stored before: nothing has
  changed, or the status stored for \<open>m\<close> is one left by a status write.
\<close>
definition keptOrWritten ::
  "ModelReconciler \<Rightarrow> (NamespacedName \<rightharpoonup> Model) \<Rightarrow> Model \<Rightarrow> Cluster \<Rightarrow> bool" where
  "keptOrWritten r before m c' =
     (models c' = before
      \<or> map_option (readyConditionWritten r m) (storedStatus c' (Namespace m, Name m))
          = Some True)"

text \<open>The condition of type Ready stored for a Model.\<close>
definition storedReadyCondition :: "Cluster \<Rightarrow> NamespacedName \<Rightarrow> Condition option" where
  "storedReadyCondition c key = Option.bind (storedStatus c key) readyCondition"

text \<open>
  The names a Pod asks for: the pieces of its inject annotation, trimmed, the
  empty ones dropped (the loop of \<open>Handle\<close> skips them).
\<close>
definition referencedNames :: "Pod \<Rightarrow> string list" where
  "referencedNames pod =
     (case Annotations pod AnnotationInject of
        None \<Rightarrow> []
      | Some a \<Rightarrow> filter (\<lambda>n. n \<noteq> []) (map TrimSpace (Split a '','')))"

text \<open>A name the handler cannot use: the read fails, or the Model is not Ready.\<close>
definition unusable :: "ModelInjector \<Rightarrow> Cluster \<Rightarrow> string \<Rightarrow> string \<Rightarrow> bool" where
  "unusable mi c namespace name =
     (case clientGet (getFault mi) (models c) (namespace, name) of
        Inl err \<Rightarrow> True
      | Inr model \<Rightarrow> Phase (Status model) \<noteq> ModelPhaseReady)"

text \<open>
  There is no container to mount into: the Pod has no containers at all, or the
  container option names a container it does not have.
\<close>
definition noTarget :: "injectionOptions \<Rightarrow> Container list \<Rightarrow> bool" where
  "noTarget opts cs =
     (cs = [] \<or> (ContainerName opts \<noteq> [] \<and> containerIndex cs (ContainerName opts) = None))"

definition isDenied :: "Response \<Rightarrow> bool" where
  "isDenied resp = (case resp of Denied msg \<Rightarrow> True | _ \<Rightarrow> False)"

section \<open>Example objects\<close>

text \<open>Concrete reconcilers, Models and clusters, used to run the definitions.\<close>

definition exErrorString :: "api_error \<Rightarrow> string" where
  "exErrorString e =
     (case e of NotFound \<Rightarrow> ''not found'' | AlreadyExists \<Rightarrow> ''already exists''
      | OtherError t \<Rightarrow> t)"

definition exReconciler :: ModelReconciler where
  "exReconciler =
     \<lparr> getModelFault = None, getPVCFault = None, createPVCFault = None,
       getJobFault = None, createJobFault = None, statusUpdateFault = None,
       ownerRefFault = None, Now = 1700000000,
       parseQuantity = (\<lambda>q. if q = ''1Gi'' \<or> q = ''1024Mi'' then Some ''1Gi''
                             else if q = ''5Gi'' then Some ''5Gi'' else None),
       errorString = exErrorString \<rparr>"

definition exKey :: NamespacedName where
  "exKey = (''default'', ''m1'')"

definition noSource :: ModelSource where
  "noSource = \<lparr> HuggingFace = None, URL = None, S3 = None, Git = None \<rparr>"

definition hfSource :: ModelSource where
  "hfSource = noSource\<lparr>HuggingFace := Some \<lparr> RepoID = ''org/model'', Revision = ''main'' \<rparr>\<rparr>"

definition s3Source :: ModelSource where
  "s3Source = noSource\<lparr>S3 := Some \<lparr> Bucket = ''my-bucket'', Key = ''models/test/'',
                                     Endpoint = [], Region = ''us-west-2'' \<rparr>\<rparr>"

definition gitSource :: ModelSource where
  "gitSource = noSource\<lparr>Git := Some \<lparr> gitURL = ''https://example.com/r.git'', gitRef = ''v1'' \<rparr>\<rparr>"

definition hfAndS3Source :: ModelSource where
  "hfAndS3Source = hfSource\<lparr>S3 := S3 s3Source\<rparr>"

definition exModel :: "ModelSource \<Rightarrow> ModelStatus \<Rightarrow> Model" where
  "exModel src st =
     \<lparr> Name = ''m1'', Namespace = ''default'', Generation = 1,
       Spec = \<lparr> Source = src,
                Storage = \<lparr> StorageClass = ''standard'', Size = ''1Gi'', AccessModes = [] \<rparr>,
                Version = ''1.0'', NodeSelector = [] \<rparr>,
       Status = st \<rparr>"

definition exCluster ::
  "Model \<Rightarrow> (NamespacedName \<rightharpoonup> PersistentVolumeClaim) \<Rightarrow> (NamespacedName \<rightharpoonup> Job) \<Rightarrow> Cluster" where
  "exCluster m ps js = \<lparr> models = [exKey \<mapsto> m], pvcs = ps, jobs = js \<rparr>"

definition exPVC :: PersistentVolumeClaim where
  "exPVC = \<lparr> pvcName = ''model-m1'', pvcNamespace = ''default'', pvcInstance = ''m1'',
              pvcAccessModes = [''ReadWriteOnce''], pvcStorageClass = ''standard'',
              pvcRequest = ''1Gi'', pvcOwner = Some ''m1'' \<rparr>"

definition exJob :: "JobStatus \<Rightarrow> Job" where
  "exJob st =
     \<lparr> jobName = ''model-download-m1'', jobNamespace = ''default'', jobInstance = ''m1'',
       jobContainerName = ''downloader'', jobImage = huggingFaceImage,
       jobClaimName = ''model-m1'', jobNodeSelector = [], jobOwner = Some ''m1'',
       jobStatus = st \<rparr>"

definition downloadingStatus :: ModelStatus where
  "downloadingStatus =
     emptyStatus\<lparr>Phase := ModelPhaseDownloading, statusPVCName := ''model-m1'',
                 Message := ''Download started''\<rparr>"

definition runningStatus :: JobStatus where
  "runningStatus = emptyJobStatus\<lparr>Active := 2\<rparr>"

definition succeededStatus :: JobStatus where
  "succeededStatus = emptyJobStatus\<lparr>Succeeded := 1\<rparr>"

definition backoffCondition :: JobCondition where
  "backoffCondition =
     \<lparr> jcType = JobFailed, jcStatus = ConditionTrue, jcReason = ''BackoffLimitExceeded'',
       jcMessage = ''Job has reached the specified backoff limit'' \<rparr>"

definition failedStatus :: JobStatus where
  "failedStatus = emptyJobStatus\<lparr>Failed := 4, jobConditions := [backoffCondition]\<rparr>"

text \<open>A Job with a failed condition whose failed counter is still zero.\<close>
definition deadlineStatus :: JobStatus where
  "deadlineStatus =
     emptyJobStatus\<lparr>jobConditions :=
       [\<lparr> jcType = JobFailed, jcStatus = ConditionTrue, jcReason = ''DeadlineExceeded'',
          jcMessage = ''Job was active longer than specified deadline'' \<rparr>]\<rparr>"

definition exJobKey :: NamespacedName where
  "exJobKey = (''default'', ''model-download-m1'')"

definition inProgressCondition :: Condition where
  "inProgressCondition =
     \<lparr> condType = conditionTypeReady, condStatus = ConditionFalse, condObservedGeneration = 1,
       LastTransitionTime = 5, Reason = ''InProgress'', condMessage = ''Download started'' \<rparr>"

definition exInjector :: ModelInjector where
  "exInjector =
     \<lparr> getFault = None, marshalFault = None,
       quote = (\<lambda>s. [CHR 0x22] @ s @ [CHR 0x22]),
       errText = exErrorString, unicodeUpper = id \<rparr>"

definition mainContainer :: Container where
  "mainContainer = \<lparr> containerName = ''main'', VolumeMounts = [], Env = [] \<rparr>"

definition exPod :: "(string \<rightharpoonup> string) \<Rightarrow> Container list \<Rightarrow> Pod" where
  "exPod as cs = \<lparr> Labels = Map.empty, Annotations = as, Volumes = [], Containers = cs \<rparr>"

definition exRequest :: "Pod \<Rightarrow> Request" where
  "exRequest pod = \<lparr> reqName = ''p'', reqNamespace = ''default'', reqObject = Inr pod \<rparr>"

definition readyModel :: "ModelSource \<Rightarrow> Model" where
  "readyModel src =
     exModel src (emptyStatus\<lparr>Phase := ModelPhaseReady, statusPVCName := ''model-m1''\<rparr>)"

definition emptyCluster :: Cluster where
  "emptyCluster = \<lparr> models = Map.empty, pvcs = Map.empty, jobs = Map.empty \<rparr>"

text \<open>A Model whose storage size is not a quantity, and a reconciler whose Scheme
  does not know the Model kind.\<close>
definition badSizeModel :: Model where
  "badSizeModel =
     (exModel s3Source emptyStatus)
       \<lparr>Spec := (Spec (exModel s3Source emptyStatus))
          \<lparr>Storage := \<lparr> StorageClass = ''standard'', Size = ''lots'', AccessModes = [] \<rparr>\<rparr>\<rparr>"

definition noSchemeReconciler :: ModelReconciler where
  "noSchemeReconciler =
     exReconciler\<lparr>ownerRefFault := Some ''no kind is registered for the type v1alpha1.Model''\<rparr>"

section \<open>Facts about the string functions\<close>

lemma ReplaceAll_Nil: "old \<noteq> [] \<Longrightarrow> ReplaceAll [] old new = []"
  by (simp add: ReplaceAll.simps)

lemma ReplaceAll_Cons:
  "old \<noteq> [] \<Longrightarrow>
   ReplaceAll (c # cs) old new =
     (if prefix old (c # cs) then new @ ReplaceAll (drop (length old) (c # cs)) old new
      else c # ReplaceAll cs old new)"
  by (subst ReplaceAll.simps) simp

lemma ReplaceAll_byte:
  "ReplaceAll s [a] [b] = map (\<lambda>c. if c = a then b else c) s"
  by (induction s) (auto simp: ReplaceAll_Nil ReplaceAll_Cons)

section \<open>Derived names\<close>

text \<open>
  C9. The derived names are fixed functions of the model name \<open>n\<close>: the claim name
  is \<open>model-\<close> followed by \<open>n\<close>, the Job name \<open>model-download-\<close> followed by \<open>n\<close>, the
  volume name \<open>model-\<close> followed by \<open>n\<close>, the environment prefix \<open>MODEL_\<close> followed
  by the upper-cased name with every \<open>-\<close> turned into \<open>_\<close>, and the default mount
  path \<open>/models/\<close> followed by \<open>n\<close>. The claim name of \<open>llama-3-8b\<close> is
  \<open>model-llama-3-8b\<close> and the prefix of \<open>Mistral-7B\<close> is \<open>MODEL_MISTRAL_7B\<close>.
\<close>
theorem derived_names_exact:
  "PVCName n = ''model-'' @ n
   \<and> JobName n = ''model-download-'' @ n
   \<and> VolumeName n = ''model-'' @ n
   \<and> EnvVarPrefix uni n =
       ''MODEL_'' @ map (\<lambda>c. if c = CHR ''-'' then CHR ''_'' else c) (ToUpper uni n)
   \<and> DefaultMountPath n = ''/models/'' @ n
   \<and> PVCName ''llama-3-8b'' = ''model-llama-3-8b''
   \<and> EnvVarPrefix uni ''Mistral-7B'' = ''MODEL_MISTRAL_7B''"
proof (intro conjI)
  show "PVCName n = ''model-'' @ n"
    by (simp add: PVCName_def PVCPrefix_def)
  show "JobName n = ''model-download-'' @ n"
    by (simp add: JobName_def JobPrefix_def)
  show "VolumeName n = ''model-'' @ n"
    by (simp add: VolumeName_def VolumePrefix_def)
  show "EnvVarPrefix uni n =
        ''MODEL_'' @ map (\<lambda>c. if c = CHR ''-'' then CHR ''_'' else c) (ToUpper uni n)"
    by (simp add: EnvVarPrefix_def ReplaceAll_byte)
  show "DefaultMountPath n = ''/models/'' @ n"
    by (simp add: DefaultMountPath_def)
  show "PVCName ''llama-3-8b'' = ''model-llama-3-8b''"
    by (simp add: PVCName_def PVCPrefix_def)
  show "EnvVarPrefix uni ''Mistral-7B'' = ''MODEL_MISTRAL_7B''"
    unfolding EnvVarPrefix_def ToUpper_def by code_simp
qed


section \<open>Facts about status writes\<close>

lemma updateStatusWithProgress_written:
  assumes "statusUpdateFault r = None" and "models c (Namespace m, Name m) = Some stored"
  shows "snd (updateStatusWithProgress r c m phase msg prog) =
           Inr \<lparr> RequeueAfter =
             (if phase = ModelPhasePending then requeuePending
              else if phase = ModelPhaseDownloading then requeueDownloading
              else if phase = ModelPhaseReady then requeueReady
              else if phase = ModelPhaseFailed then requeueFailed
              else 0) \<rparr>"
    and "pvcs (fst (updateStatusWithProgress r c m phase msg prog)) = pvcs c"
    and "jobs (fst (updateStatusWithProgress r c m phase msg prog)) = jobs c"
    and "storedPhase (fst (updateStatusWithProgress r c m phase msg prog)) (Namespace m, Name m)
           = Some phase"
    and "map_option Message
           (storedStatus (fst (updateStatusWithProgress r c m phase msg prog)) (Namespace m, Name m))
           = Some msg"
    and "map_option Progress
           (storedStatus (fst (updateStatusWithProgress r c m phase msg prog)) (Namespace m, Name m))
           = Some prog"
    and "map_option statusPVCName
           (storedStatus (fst (updateStatusWithProgress r c m phase msg prog)) (Namespace m, Name m))
           = Some (PVCName (Name m))"
  using assms
  by (simp_all add: updateStatusWithProgress_def statusUpdate_def storedStatus_def
        storedPhase_def Let_def)

lemmas updateStatus_written =
  updateStatusWithProgress_written [where prog = "Progress (Status m)" and m = m,
    folded updateStatus_def] for m

lemma updateStatusWithProgress_success:
  assumes "updateStatusWithProgress r c m phase msg prog = (c', Inr res)"
  shows "storedPhase c' (Namespace m, Name m) = Some phase"
  using assms
  by (auto simp add: updateStatusWithProgress_def statusUpdate_def storedPhase_def Let_def
        split: option.splits)

lemma updateStatus_success:
  "updateStatus r c m phase msg = (c', Inr res) \<Longrightarrow>
   storedPhase c' (Namespace m, Name m) = Some phase"
  unfolding updateStatus_def by (rule updateStatusWithProgress_success)

lemma statusUpdate_phase:
  "statusUpdate r c m = Inr c' \<Longrightarrow>
   storedPhase c' (Namespace m, Name m) = Some (Phase (Status m))"
  by (auto simp: statusUpdate_def storedPhase_def split: option.splits)

section \<open>Facts about the dispatch\<close>

lemma Reconcile_fetch:
  assumes "models c key = Some m" and "getModelFault r = None"
  shows "Reconcile r c key =
     (let phase = (if Phase (Status m) = [] then ModelPhasePending else Phase (Status m))
      in if phase = ModelPhasePending then reconcilePending r c m
         else if phase = ModelPhaseDownloading then reconcileDownloading r c m
         else if phase = ModelPhaseReady then reconcileReady r c m
         else if phase = ModelPhaseFailed then reconcileFailed r c m
         else updateStatus r c m ModelPhasePending ''Unknown phase, resetting'')"
  using assms by (simp add: Reconcile_def clientGet_def Let_def)

lemma Reconcile_fault:
  assumes "getModelFault r = Some e"
  shows "Reconcile r c key = (c, Inl (ClientError (OtherError e)))"
  using assms by (simp add: Reconcile_def clientGet_def IsNotFound_def)

lemma reconcilePendingJob_success:
  assumes "reconcilePendingJob r c m = (c', Inr res)"
  shows "storedPhase c' (Namespace m, Name m)
           \<in> {Some ModelPhasePending, Some ModelPhaseDownloading, Some ModelPhaseFailed}"
  using assms unfolding reconcilePendingJob_def Let_def
  by (auto split: sum.splits option.splits if_splits dest!: updateStatus_success)

lemma reconcilePending_success:
  assumes "reconcilePending r c m = (c', Inr res)"
  shows "storedPhase c' (Namespace m, Name m)
           \<in> {Some ModelPhasePending, Some ModelPhaseDownloading, Some ModelPhaseFailed}"
  using assms unfolding reconcilePending_def Let_def
  by (auto split: sum.splits option.splits if_splits
        dest!: updateStatus_success reconcilePendingJob_success)

lemma reconcileDownloading_success:
  assumes "reconcileDownloading r c m = (c', Inr res)"
    and "models c (Namespace m, Name m) = Some m"
    and "Phase (Status m) = ModelPhaseDownloading"
  shows "storedPhase c' (Namespace m, Name m)
           \<in> {Some ModelPhasePending, Some ModelPhaseDownloading, Some ModelPhaseReady,
              Some ModelPhaseFailed}"
  using assms unfolding reconcileDownloading_def Let_def
  by (auto split: sum.splits option.splits if_splits
        dest!: updateStatus_success updateStatusWithProgress_success statusUpdate_phase
        simp: storedPhase_def)

lemma reconcileReady_success:
  assumes "reconcileReady r c m = (c', Inr res)"
    and "models c (Namespace m, Name m) = Some m"
    and "Phase (Status m) = ModelPhaseReady"
  shows "storedPhase c' (Namespace m, Name m) \<in> {Some ModelPhasePending, Some ModelPhaseReady}"
  using assms unfolding reconcileReady_def Let_def
  by (auto split: sum.splits option.splits if_splits dest!: updateStatus_success
        simp: storedPhase_def)

lemma reconcileFailed_success:
  assumes "reconcileFailed r c m = (c', Inr res)"
    and "models c (Namespace m, Name m) = Some m"
    and "Phase (Status m) = ModelPhaseFailed"
  shows "storedPhase c' (Namespace m, Name m) \<in> {Some ModelPhasePending, Some ModelPhaseFailed}"
  using assms unfolding reconcileFailed_def Let_def
  by (auto split: sum.splits option.splits if_splits dest!: updateStatus_success
        simp: storedPhase_def)

lemma Reconcile_success_enum:
  assumes "models c key = Some m" and "(Namespace m, Name m) = key"
    and "Reconcile r c key = (c', Inr res)"
  shows "storedPhase c' key
           \<in> {Some ModelPhasePending, Some ModelPhaseDownloading, Some ModelPhaseReady,
              Some ModelPhaseFailed}"
proof (cases "getModelFault r")
  case (Some e)
  then show ?thesis using assms(3) by (simp add: Reconcile_fault)
next
  case None
  have m: "models c (Namespace m, Name m) = Some m" using assms by simp
  note R = Reconcile_fetch [OF assms(1) None]
  consider (p) "Phase (Status m) = [] \<or> Phase (Status m) = ModelPhasePending"
    | (d) "Phase (Status m) = ModelPhaseDownloading"
    | (r) "Phase (Status m) = ModelPhaseReady"
    | (f) "Phase (Status m) = ModelPhaseFailed"
    | (u) "Phase (Status m) \<notin> {[], ModelPhasePending, ModelPhaseDownloading,
                                 ModelPhaseReady, ModelPhaseFailed}"
    by auto
  then show ?thesis
  proof cases
    case p
    then have "reconcilePending r c m = (c', Inr res)"
      using assms(3) R by (auto simp: Let_def)
    from reconcilePending_success [OF this] show ?thesis using assms(2) by auto
  next
    case d
    then have "reconcileDownloading r c m = (c', Inr res)"
      using assms(3) R by (auto simp: Let_def)
    from reconcileDownloading_success [OF this m d] show ?thesis using assms(2) by auto
  next
    case r
    then have "reconcileReady r c m = (c', Inr res)"
      using assms(3) R by (auto simp: Let_def)
    from reconcileReady_success [OF this m r] show ?thesis using assms(2) by auto
  next
    case f
    then have "reconcileFailed r c m = (c', Inr res)"
      using assms(3) R by (auto simp: Let_def)
    from reconcileFailed_success [OF this m f] show ?thesis using assms(2) by auto
  next
    case u
    then have "updateStatus r c m ModelPhasePending ''Unknown phase, resetting'' = (c', Inr res)"
      using assms(3) R by (auto simp: Let_def)
    from updateStatus_success [OF this] show ?thesis using assms(2) by auto
  qed
qed


lemma reconcileReady_missing:
  assumes "getPVCFault r = None" and "pvcs c (Namespace m, PVCName (Name m)) = None"
  shows "reconcileReady r c m = updateStatus r c m ModelPhasePending ''PVC was deleted, recreating''"
  using assms by (simp add: reconcileReady_def clientGet_def IsNotFound_def)

lemma reconcileReady_present:
  assumes "getPVCFault r = None" and "pvcs c (Namespace m, PVCName (Name m)) \<noteq> None"
  shows "reconcileReady r c m = (c, Inr \<lparr> RequeueAfter = requeueReady \<rparr>)"
  using assms by (auto simp add: reconcileReady_def clientGet_def)

lemma reconcileFailed_missing:
  assumes "getJobFault r = None" and "jobs c (Namespace m, JobName (Name m)) = None"
  shows "reconcileFailed r c m = updateStatus r c m ModelPhasePending ''Retrying download''"
  using assms by (simp add: reconcileFailed_def clientGet_def IsNotFound_def)

lemma reconcileFailed_present:
  assumes "getJobFault r = None" and "jobs c (Namespace m, JobName (Name m)) \<noteq> None"
  shows "reconcileFailed r c m = (c, Inr \<lparr> RequeueAfter = requeueFailed \<rparr>)"
  using assms by (auto simp add: reconcileFailed_def clientGet_def)

lemmas ex_defs = exCluster_def exModel_def exKey_def emptyStatus_def exReconciler_def
  exPVC_def exJob_def emptyJobStatus_def hfSource_def noSource_def PVCName_def PVCPrefix_def JobName_def JobPrefix_def


section \<open>Phases after a pass\<close>

text \<open>
  C10. For a stored Model whose phase is a non-empty string other than Pending,
  Downloading, Ready and Failed, a pass whose fetch and status write go through
  resets the stored phase to Pending, with the message "Unknown phase, resetting"
  and the Pending requeue delay. And whatever the phase before, after a pass that
  returns without an error the stored phase is one of the four enum values.
\<close>
theorem unknown_phase_resets_to_pending:
  assumes "models c key = Some m" and "(Namespace m, Name m) = key"
  shows "(Phase (Status m) \<notin> {[], ModelPhasePending, ModelPhaseDownloading,
                               ModelPhaseReady, ModelPhaseFailed}
          \<and> getModelFault r = None \<and> statusUpdateFault r = None
          \<longrightarrow> snd (Reconcile r c key) = Inr \<lparr> RequeueAfter = requeuePending \<rparr>
              \<and> storedPhase (fst (Reconcile r c key)) key = Some ModelPhasePending
              \<and> map_option Message (storedStatus (fst (Reconcile r c key)) key)
                  = Some ''Unknown phase, resetting'')
       \<and> (\<forall>c' res. Reconcile r c key = (c', Inr res) \<longrightarrow>
             storedPhase c' key \<in> {Some ModelPhasePending, Some ModelPhaseDownloading,
                                   Some ModelPhaseReady, Some ModelPhaseFailed})"
proof (intro conjI impI allI)
  assume h: "Phase (Status m) \<notin> {[], ModelPhasePending, ModelPhaseDownloading,
                               ModelPhaseReady, ModelPhaseFailed}
          \<and> getModelFault r = None \<and> statusUpdateFault r = None"
  then have R: "Reconcile r c key = updateStatus r c m ModelPhasePending ''Unknown phase, resetting''"
    using Reconcile_fetch [OF assms(1), of r] by (auto simp: Let_def)
  have st: "models c (Namespace m, Name m) = Some m" using assms by simp
  from h have f: "statusUpdateFault r = None" by simp
  show "snd (Reconcile r c key) = Inr \<lparr> RequeueAfter = requeuePending \<rparr>"
    using updateStatus_written(1) [OF f st] R by simp
  show "storedPhase (fst (Reconcile r c key)) key = Some ModelPhasePending"
    using updateStatus_written(4) [OF f st] R assms(2) by simp
  show "map_option Message (storedStatus (fst (Reconcile r c key)) key)
                  = Some ''Unknown phase, resetting''"
    using updateStatus_written(5) [OF f st] R assms(2) by simp
next
  fix c' res
  assume "Reconcile r c key = (c', Inr res)"
  from Reconcile_success_enum [OF assms this]
  show "storedPhase c' key \<in> {Some ModelPhasePending, Some ModelPhaseDownloading,
                                   Some ModelPhaseReady, Some ModelPhaseFailed}" .
qed

theorem unknown_phase_resets_to_pending_witness:
  "snd (Reconcile exReconciler (exCluster (exModel hfSource (emptyStatus\<lparr>Phase := ''Bogus''\<rparr>)) Map.empty Map.empty) exKey)
     = Inr \<lparr> RequeueAfter = requeuePending \<rparr>
   \<and> storedPhase (fst (Reconcile exReconciler (exCluster (exModel hfSource (emptyStatus\<lparr>Phase := ''Bogus''\<rparr>)) Map.empty Map.empty) exKey)) exKey
       = Some ModelPhasePending
   \<and> storedPhase (fst (Reconcile exReconciler (exCluster (exModel hfSource (emptyStatus\<lparr>Phase := ''Bogus''\<rparr>)) Map.empty Map.empty) exKey)) exKey
       \<in> {Some ModelPhasePending, Some ModelPhaseDownloading, Some ModelPhaseReady, Some ModelPhaseFailed}"
  using unknown_phase_resets_to_pending
    [of "exCluster (exModel hfSource (emptyStatus\<lparr>Phase := ''Bogus''\<rparr>)) Map.empty Map.empty" exKey
        "exModel hfSource (emptyStatus\<lparr>Phase := ''Bogus''\<rparr>)" exReconciler]
  by (simp add: exCluster_def exModel_def exKey_def emptyStatus_def exReconciler_def)



section \<open>Recovery\<close>

text \<open>
  C6. Recovery after an owned resource is deleted from outside. For a stored
  Model in phase Ready whose claim is not found, a pass (its reads and its status
  write going through) stores phase Pending; if the claim is still there the
  pass changes nothing and the phase stays Ready. For a stored Model in phase
  Failed whose Job is not found, the pass stores phase Pending; if the Job is
  still there the pass changes nothing and the phase stays Failed.
\<close>
theorem recovery_after_external_deletion:
  assumes "models c key = Some m" and "(Namespace m, Name m) = key"
    and "getModelFault r = None"
  shows "(Phase (Status m) = ModelPhaseReady \<and> getPVCFault r = None
          \<and> pvcs c (Namespace m, PVCName (Name m)) = None \<and> statusUpdateFault r = None
          \<longrightarrow> storedPhase (fst (Reconcile r c key)) key = Some ModelPhasePending
              \<and> snd (Reconcile r c key) = Inr \<lparr> RequeueAfter = requeuePending \<rparr>)
       \<and> (Phase (Status m) = ModelPhaseReady \<and> getPVCFault r = None
          \<and> pvcs c (Namespace m, PVCName (Name m)) \<noteq> None
          \<longrightarrow> Reconcile r c key = (c, Inr \<lparr> RequeueAfter = requeueReady \<rparr>)
              \<and> storedPhase (fst (Reconcile r c key)) key = Some ModelPhaseReady)
       \<and> (Phase (Status m) = ModelPhaseFailed \<and> getJobFault r = None
          \<and> jobs c (Namespace m, JobName (Name m)) = None \<and> statusUpdateFault r = None
          \<longrightarrow> storedPhase (fst (Reconcile r c key)) key = Some ModelPhasePending
              \<and> snd (Reconcile r c key) = Inr \<lparr> RequeueAfter = requeuePending \<rparr>)
       \<and> (Phase (Status m) = ModelPhaseFailed \<and> getJobFault r = None
          \<and> jobs c (Namespace m, JobName (Name m)) \<noteq> None
          \<longrightarrow> Reconcile r c key = (c, Inr \<lparr> RequeueAfter = requeueFailed \<rparr>)
              \<and> storedPhase (fst (Reconcile r c key)) key = Some ModelPhaseFailed)"
proof -
  have st: "models c (Namespace m, Name m) = Some m" using assms by simp
  note R = Reconcile_fetch [OF assms(1) assms(3)]
  have k: "key = (Namespace m, Name m)" using assms(2) by simp
  have 1: "storedPhase (fst (Reconcile r c key)) key = Some ModelPhasePending
           \<and> snd (Reconcile r c key) = Inr \<lparr> RequeueAfter = requeuePending \<rparr>"
    if "Phase (Status m) = ModelPhaseReady" "getPVCFault r = None"
       "pvcs c (Namespace m, PVCName (Name m)) = None" "statusUpdateFault r = None"
  proof -
    have "Reconcile r c key = updateStatus r c m ModelPhasePending ''PVC was deleted, recreating''"
      using R that reconcileReady_missing [OF that(2,3)] by (simp add: Let_def)
    then show ?thesis
      using updateStatus_written(1,4) [OF that(4) st] k by simp
  qed
  have 2: "Reconcile r c key = (c, Inr \<lparr> RequeueAfter = requeueReady \<rparr>)
              \<and> storedPhase (fst (Reconcile r c key)) key = Some ModelPhaseReady"
    if "Phase (Status m) = ModelPhaseReady" "getPVCFault r = None"
       "pvcs c (Namespace m, PVCName (Name m)) \<noteq> None"
    using R that reconcileReady_present [OF that(2,3)] assms(1)
    by (simp add: Let_def storedPhase_def)
  have 3: "storedPhase (fst (Reconcile r c key)) key = Some ModelPhasePending
           \<and> snd (Reconcile r c key) = Inr \<lparr> RequeueAfter = requeuePending \<rparr>"
    if "Phase (Status m) = ModelPhaseFailed" "getJobFault r = None"
       "jobs c (Namespace m, JobName (Name m)) = None" "statusUpdateFault r = None"
  proof -
    have "Reconcile r c key = updateStatus r c m ModelPhasePending ''Retrying download''"
      using R that reconcileFailed_missing [OF that(2,3)] by (simp add: Let_def)
    then show ?thesis
      using updateStatus_written(1,4) [OF that(4) st] k by simp
  qed
  have 4: "Reconcile r c key = (c, Inr \<lparr> RequeueAfter = requeueFailed \<rparr>)
              \<and> storedPhase (fst (Reconcile r c key)) key = Some ModelPhaseFailed"
    if "Phase (Status m) = ModelPhaseFailed" "getJobFault r = None"
       "jobs c (Namespace m, JobName (Name m)) \<noteq> None"
    using R that reconcileFailed_present [OF that(2,3)] assms(1)
    by (simp add: Let_def storedPhase_def)
  show ?thesis using 1 2 3 4 by blast
qed

theorem recovery_after_external_deletion_witness:
  "storedPhase (fst (Reconcile exReconciler
      (exCluster (exModel hfSource (emptyStatus\<lparr>Phase := ModelPhaseReady\<rparr>)) Map.empty Map.empty) exKey)) exKey
     = Some ModelPhasePending
   \<and> storedPhase (fst (Reconcile exReconciler
      (exCluster (exModel hfSource (emptyStatus\<lparr>Phase := ModelPhaseReady\<rparr>))
         [(''default'', ''model-m1'') \<mapsto> exPVC] Map.empty) exKey)) exKey
     = Some ModelPhaseReady
   \<and> storedPhase (fst (Reconcile exReconciler
      (exCluster (exModel hfSource (emptyStatus\<lparr>Phase := ModelPhaseFailed\<rparr>)) Map.empty Map.empty) exKey)) exKey
     = Some ModelPhasePending
   \<and> storedPhase (fst (Reconcile exReconciler
      (exCluster (exModel hfSource (emptyStatus\<lparr>Phase := ModelPhaseFailed\<rparr>)) Map.empty
         [(''default'', ''model-download-m1'') \<mapsto> exJob emptyJobStatus]) exKey)) exKey
     = Some ModelPhaseFailed"
proof -
  let ?r = exReconciler
  let ?mr = "exModel hfSource (emptyStatus\<lparr>Phase := ModelPhaseReady\<rparr>)"
  let ?mf = "exModel hfSource (emptyStatus\<lparr>Phase := ModelPhaseFailed\<rparr>)"
  let ?ps = "[(''default'', ''model-m1'') \<mapsto> exPVC]"
  let ?js = "[(''default'', ''model-download-m1'') \<mapsto> exJob emptyJobStatus]"
  have f: "getModelFault ?r = None" by (simp add: exReconciler_def)
  have kr: "(Namespace ?mr, Name ?mr) = exKey" and kf: "(Namespace ?mf, Name ?mf) = exKey"
    by (simp_all add: exModel_def exKey_def)
  have 1: "models (exCluster ?mr Map.empty Map.empty) exKey = Some ?mr"
    and 2: "models (exCluster ?mr ?ps Map.empty) exKey = Some ?mr"
    and 3: "models (exCluster ?mf Map.empty Map.empty) exKey = Some ?mf"
    and 4: "models (exCluster ?mf Map.empty ?js) exKey = Some ?mf"
    by (simp_all add: exCluster_def)
  have a1: "Phase (Status ?mr) = ModelPhaseReady \<and> getPVCFault ?r = None
      \<and> pvcs (exCluster ?mr Map.empty Map.empty) (Namespace ?mr, PVCName (Name ?mr)) = None
      \<and> statusUpdateFault ?r = None"
    and a2: "Phase (Status ?mr) = ModelPhaseReady \<and> getPVCFault ?r = None
      \<and> pvcs (exCluster ?mr ?ps Map.empty) (Namespace ?mr, PVCName (Name ?mr)) \<noteq> None"
    and a3: "Phase (Status ?mf) = ModelPhaseFailed \<and> getJobFault ?r = None
      \<and> jobs (exCluster ?mf Map.empty Map.empty) (Namespace ?mf, JobName (Name ?mf)) = None
      \<and> statusUpdateFault ?r = None"
    and a4: "Phase (Status ?mf) = ModelPhaseFailed \<and> getJobFault ?r = None
      \<and> jobs (exCluster ?mf Map.empty ?js) (Namespace ?mf, JobName (Name ?mf)) \<noteq> None"
    by (simp_all add: ex_defs)
  from recovery_after_external_deletion [OF 1 kr f, THEN conjunct1] a1
  have b1: "storedPhase (fst (Reconcile ?r (exCluster ?mr Map.empty Map.empty) exKey)) exKey
              = Some ModelPhasePending"
    by (rule mp [THEN conjunct1])
  from recovery_after_external_deletion [OF 2 kr f, THEN conjunct2, THEN conjunct1] a2
  have b2: "storedPhase (fst (Reconcile ?r (exCluster ?mr ?ps Map.empty) exKey)) exKey
              = Some ModelPhaseReady"
    by (rule mp [THEN conjunct2])
  from recovery_after_external_deletion [OF 3 kf f, THEN conjunct2, THEN conjunct2, THEN conjunct1] a3
  have b3: "storedPhase (fst (Reconcile ?r (exCluster ?mf Map.empty Map.empty) exKey)) exKey
              = Some ModelPhasePending"
    by (rule mp [THEN conjunct1])
  from recovery_after_external_deletion [OF 4 kf f, THEN conjunct2, THEN conjunct2, THEN conjunct2] a4
  have b4: "storedPhase (fst (Reconcile ?r (exCluster ?mf Map.empty ?js) exKey)) exKey
              = Some ModelPhaseFailed"
    by (rule mp [THEN conjunct2])
  from b1 b2 b3 b4 show ?thesis by (intro conjI)
qed



section \<open>Facts about the Pending phase\<close>

lemma updateStatusWithProgress_jobs:
  "jobs (fst (updateStatusWithProgress r c m phase msg prog)) = jobs c"
  "pvcs (fst (updateStatusWithProgress r c m phase msg prog)) = pvcs c"
  by (simp_all add: updateStatusWithProgress_def statusUpdate_def Let_def split: option.splits)

lemmas updateStatus_jobs =
  updateStatusWithProgress_jobs [where prog = "Progress (Status m)" and m = m,
    folded updateStatus_def] for m

lemma BuildDownloadJob_error_iff:
  "isl (BuildDownloadJob m) = (populatedVariants (Source (Spec m)) = 0)"
  by (simp add: BuildDownloadJob_def populatedVariants_def Let_def)

lemma BuildDownloadJob_none:
  "populatedVariants (Source (Spec m)) = 0 \<Longrightarrow>
   BuildDownloadJob m = Inl (''no source specified in model '' @ Name m)"
  by (simp add: BuildDownloadJob_def populatedVariants_def Let_def split: if_splits)

lemma BuildDownloadJob_some:
  "populatedVariants (Source (Spec m)) \<noteq> 0 \<Longrightarrow>
   \<exists>job. BuildDownloadJob m = Inr job \<and> jobName job = JobName (Name m) \<and> jobNamespace job = Namespace m"
  by (simp add: BuildDownloadJob_def populatedVariants_def Let_def split: if_splits)

lemma reconcilePendingJob_none:
  assumes "populatedVariants (Source (Spec m)) = 0"
  shows "reconcilePendingJob r c m =
     updateStatus r c m ModelPhaseFailed
       (''Failed to build download Job: no source specified in model '' @ Name m)"
  using BuildDownloadJob_none [OF assms] by (simp add: reconcilePendingJob_def)

lemma reconcilePending_none_jobs:
  assumes "populatedVariants (Source (Spec m)) = 0"
  shows "jobs (fst (reconcilePending r c m)) = jobs c"
  by (simp add: reconcilePending_def reconcilePendingJob_none [OF assms] Let_def
        updateStatus_jobs split: option.splits sum.splits)

lemma reconcilePending_none:
  assumes "populatedVariants (Source (Spec m)) = 0"
    and "parseQuantity r (Size (Storage (Spec m))) \<noteq> None" and "ownerRefFault r = None"
    and "getPVCFault r = None" and "createPVCFault r = None"
  shows "\<exists>ps. reconcilePending r c m =
     updateStatus r (c\<lparr>pvcs := ps\<rparr>) m ModelPhaseFailed
       (''Failed to build download Job: no source specified in model '' @ Name m)"
proof (cases "pvcs c (Namespace m, PVCName (Name m))")
  case None
  then have "reconcilePending r c m =
     updateStatus r (c\<lparr>pvcs := (pvcs c)((Namespace m, PVCName (Name m)) \<mapsto>
        (the (BuildPVC (parseQuantity r) m))\<lparr>pvcOwner := Some (Name m)\<rparr>)\<rparr>) m ModelPhaseFailed
       (''Failed to build download Job: no source specified in model '' @ Name m)"
    using assms
    by (auto simp add: reconcilePending_def reconcilePendingJob_none BuildPVC_def Let_def
          clientGet_def clientCreate_def IsNotFound_def)
  then show ?thesis by blast
next
  case (Some a)
  then have "reconcilePending r c m =
     updateStatus r (c\<lparr>pvcs := pvcs c\<rparr>) m ModelPhaseFailed
       (''Failed to build download Job: no source specified in model '' @ Name m)"
    using assms
    by (auto simp add: reconcilePending_def reconcilePendingJob_none BuildPVC_def Let_def
          clientGet_def clientCreate_def IsNotFound_def)
  then show ?thesis by blast
qed

lemma BuildDownloadJob_key:
  "BuildDownloadJob m = Inr job \<Longrightarrow> jobName job = JobName (Name m) \<and> jobNamespace job = Namespace m"
  by (auto simp add: BuildDownloadJob_def Let_def split: if_splits)

lemma reconcilePendingJob_ok:
  assumes "populatedVariants (Source (Spec m)) \<noteq> 0" and "ownerRefFault r = None"
    and "getJobFault r = None" and "createJobFault r = None"
  shows "reconcilePendingJob r c m =
     updateStatus r (c\<lparr>jobs := jobsAfterPending c m\<rparr>) m ModelPhaseDownloading ''Download started''"
proof -
  obtain job where j: "BuildDownloadJob m = Inr job"
    using BuildDownloadJob_some [OF assms(1)] by blast
  note k = BuildDownloadJob_key [OF j]
  show ?thesis
  proof (cases "jobs c (Namespace m, JobName (Name m))")
    case None
    then show ?thesis using assms j k
      by (simp add: reconcilePendingJob_def Let_def clientGet_def clientCreate_def IsNotFound_def jobsAfterPending_def)
  next
    case (Some a)
    then show ?thesis using assms j k
      by (simp add: reconcilePendingJob_def Let_def clientGet_def clientCreate_def IsNotFound_def jobsAfterPending_def)
  qed
qed

lemma reconcilePending_pvc:
  assumes "parseQuantity r (Size (Storage (Spec m))) \<noteq> None" and "ownerRefFault r = None"
    and "getPVCFault r = None" and "createPVCFault r = None"
  shows "reconcilePending r c m = reconcilePendingJob r (c\<lparr>pvcs := pvcsAfterPending r c m\<rparr>) m"
proof (cases "pvcs c (Namespace m, PVCName (Name m))")
  case None
  then show ?thesis using assms
    by (auto simp add: reconcilePending_def BuildPVC_def Let_def
          clientGet_def clientCreate_def IsNotFound_def pvcsAfterPending_def)
next
  case (Some a)
  then show ?thesis using assms
    by (auto simp add: reconcilePending_def BuildPVC_def Let_def
          clientGet_def clientCreate_def IsNotFound_def pvcsAfterPending_def)
qed

lemma pvcsAfterPending_present:
  "parseQuantity r (Size (Storage (Spec m))) \<noteq> None \<Longrightarrow>
   pvcsAfterPending r c m (Namespace m, PVCName (Name m)) \<noteq> None"
  by (auto simp add: pvcsAfterPending_def BuildPVC_def Let_def split: option.splits)

lemma jobsAfterPending_present:
  "populatedVariants (Source (Spec m)) \<noteq> 0 \<Longrightarrow>
   jobsAfterPending c m (Namespace m, JobName (Name m)) \<noteq> None"
  using BuildDownloadJob_some [of m]
  by (auto simp add: jobsAfterPending_def split: option.splits sum.splits)


lemma Reconcile_pending_ok:
  assumes "models c key = Some m" and "(Namespace m, Name m) = key"
    and "populatedVariants (Source (Spec m)) \<noteq> 0"
    and "Phase (Status m) = [] \<or> Phase (Status m) = ModelPhasePending"
    and "noFaults r" and "parseQuantity r (Size (Storage (Spec m))) \<noteq> None"
    and "ownerRefFault r = None"
  shows "storedPhase (fst (Reconcile r c key)) key = Some ModelPhaseDownloading"
    and "map_option statusPVCName (storedStatus (fst (Reconcile r c key)) key)
           = Some (PVCName (Name m))"
    and "snd (Reconcile r c key) = Inr \<lparr> RequeueAfter = requeueDownloading \<rparr>"
    and "pvcs (fst (Reconcile r c key)) (Namespace m, PVCName (Name m)) \<noteq> None"
    and "jobs (fst (Reconcile r c key)) (Namespace m, JobName (Name m)) \<noteq> None"
proof -
  from assms(5,7) have f: "getModelFault r = None" "getPVCFault r = None"
    "createPVCFault r = None" "getJobFault r = None" "createJobFault r = None"
    "statusUpdateFault r = None" "ownerRefFault r = None"
    by (simp_all add: noFaults_def)
  let ?c1 = "c\<lparr>pvcs := pvcsAfterPending r c m\<rparr>"
  let ?c2 = "?c1\<lparr>jobs := jobsAfterPending ?c1 m\<rparr>"
  have R: "Reconcile r c key = updateStatus r ?c2 m ModelPhaseDownloading ''Download started''"
    using Reconcile_fetch [OF assms(1) f(1)] assms(4)
      reconcilePending_pvc [OF assms(6) f(7) f(2) f(3), of c]
      reconcilePendingJob_ok [OF assms(3) f(7) f(4) f(5), of ?c1]
    by (auto simp: Let_def)
  have st: "models ?c2 (Namespace m, Name m) = Some m" using assms(1,2) by simp
  have k: "key = (Namespace m, Name m)" using assms(2) by simp
  show "storedPhase (fst (Reconcile r c key)) key = Some ModelPhaseDownloading"
    using updateStatus_written(4) [OF f(6) st] R k by simp
  show "map_option statusPVCName (storedStatus (fst (Reconcile r c key)) key)
           = Some (PVCName (Name m))"
    using updateStatus_written(7) [OF f(6) st] R k by simp
  show "snd (Reconcile r c key) = Inr \<lparr> RequeueAfter = requeueDownloading \<rparr>"
    using updateStatus_written(1) [OF f(6) st] R by simp
  show "pvcs (fst (Reconcile r c key)) (Namespace m, PVCName (Name m)) \<noteq> None"
    using updateStatus_written(2) [OF f(6) st] pvcsAfterPending_present [OF assms(6), of c] R
    by simp
  show "jobs (fst (Reconcile r c key)) (Namespace m, JobName (Name m)) \<noteq> None"
    using updateStatus_written(3) [OF f(6) st] jobsAfterPending_present [OF assms(3), of ?c1] R
    by simp
qed

lemma Reconcile_none_jobs:
  assumes "models c key = Some m"
    and "populatedVariants (Source (Spec m)) = 0"
    and "Phase (Status m) = [] \<or> Phase (Status m) = ModelPhasePending"
  shows "jobs (fst (Reconcile r c key)) = jobs c"
proof (cases "getModelFault r")
  case None
  then show ?thesis
    using Reconcile_fetch [OF assms(1) None] assms(3) reconcilePending_none_jobs [OF assms(2)]
    by (auto simp: Let_def)
next
  case (Some e)
  then show ?thesis by (simp add: Reconcile_fault)
qed


section \<open>From Pending\<close>

text \<open>
  C4, as the code has it. For a stored Model with exactly one source variant set
  and an empty status, a pass in which every read and write goes through, the
  storage size parses as a quantity and the owner reference can be set stores
  phase Downloading and the derived claim name, returns the Downloading requeue
  delay, which is positive, and leaves the claim and the Job in the cluster.
\<close>
theorem pending_single_source_reaches_downloading:
  assumes "models c key = Some m" and "(Namespace m, Name m) = key"
    and "populatedVariants (Source (Spec m)) = 1"
    and "Status m = emptyStatus"
    and "noFaults r" and "parseQuantity r (Size (Storage (Spec m))) \<noteq> None"
    and "ownerRefFault r = None"
  shows "storedPhase (fst (Reconcile r c key)) key = Some ModelPhaseDownloading
       \<and> map_option statusPVCName (storedStatus (fst (Reconcile r c key)) key)
           = Some (PVCName (Name m))
       \<and> snd (Reconcile r c key) = Inr \<lparr> RequeueAfter = requeueDownloading \<rparr>
       \<and> 0 < requeueDownloading
       \<and> pvcs (fst (Reconcile r c key)) (Namespace m, PVCName (Name m)) \<noteq> None
       \<and> jobs (fst (Reconcile r c key)) (Namespace m, JobName (Name m)) \<noteq> None"
proof -
  have p: "populatedVariants (Source (Spec m)) \<noteq> 0" using assms(3) by simp
  have e: "Phase (Status m) = [] \<or> Phase (Status m) = ModelPhasePending"
    using assms(4) by (simp add: emptyStatus_def)
  note L = Reconcile_pending_ok [OF assms(1,2) p e assms(5,6,7)]
  show ?thesis using L by (simp add: requeueDownloading_def)
qed

theorem pending_single_source_reaches_downloading_witness:
  "storedPhase (fst (Reconcile exReconciler
       (exCluster (exModel s3Source emptyStatus) Map.empty Map.empty) exKey)) exKey
     = Some ModelPhaseDownloading
   \<and> map_option statusPVCName (storedStatus (fst (Reconcile exReconciler
       (exCluster (exModel s3Source emptyStatus) Map.empty Map.empty) exKey)) exKey)
     = Some ''model-m1''
   \<and> snd (Reconcile exReconciler
       (exCluster (exModel s3Source emptyStatus) Map.empty Map.empty) exKey)
     = Inr \<lparr> RequeueAfter = 15000000000 \<rparr>"
proof -
  let ?m = "exModel s3Source emptyStatus"
  let ?c = "exCluster ?m Map.empty Map.empty"
  have 1: "models ?c exKey = Some ?m" by (simp add: exCluster_def)
  have 2: "(Namespace ?m, Name ?m) = exKey" by (simp add: exModel_def exKey_def)
  have 3: "populatedVariants (Source (Spec ?m)) = 1"
    by (simp add: exModel_def s3Source_def noSource_def populatedVariants_def)
  have 4: "Status ?m = emptyStatus" by (simp add: exModel_def)
  have 5: "noFaults exReconciler" by (simp add: noFaults_def exReconciler_def)
  have 6: "parseQuantity exReconciler (Size (Storage (Spec ?m))) \<noteq> None"
    by (simp add: exReconciler_def exModel_def)
  have 7: "ownerRefFault exReconciler = None" by (simp add: exReconciler_def)
  have n: "PVCName (Name ?m) = ''model-m1''" by (simp add: PVCName_def PVCPrefix_def exModel_def)
  from pending_single_source_reaches_downloading [OF 1 2 3 4 5 6 7]
  show ?thesis unfolding n by (simp add: requeueDownloading_def)
qed

text \<open>
  Two passes in which every read and write goes through, on a Model with one
  source variant set and an empty status. With a storage size that is not a
  quantity the claim builder panics; with a Scheme that does not know the Model
  kind the owner reference cannot be set. Either way the pass returns the error,
  creates nothing and leaves the phase empty.
\<close>
theorem pending_without_claim_counterexample:
  "populatedVariants (Source (Spec badSizeModel)) = 1
   \<and> Status badSizeModel = emptyStatus
   \<and> noFaults exReconciler
   \<and> Reconcile exReconciler (exCluster badSizeModel Map.empty Map.empty) exKey
       = (exCluster badSizeModel Map.empty Map.empty, Inl (Panic ''resource.MustParse''))
   \<and> storedPhase (exCluster badSizeModel Map.empty Map.empty) exKey = Some []
   \<and> populatedVariants (Source (Spec (exModel s3Source emptyStatus))) = 1
   \<and> noFaults noSchemeReconciler
   \<and> Reconcile noSchemeReconciler
         (exCluster (exModel s3Source emptyStatus) Map.empty Map.empty) exKey
       = (exCluster (exModel s3Source emptyStatus) Map.empty Map.empty,
          Inl (OwnerRefError ''no kind is registered for the type v1alpha1.Model''))
   \<and> storedPhase (exCluster (exModel s3Source emptyStatus) Map.empty Map.empty) exKey
       = Some []"
  by (simp add: badSizeModel_def noSchemeReconciler_def exModel_def s3Source_def noSource_def
        populatedVariants_def emptyStatus_def noFaults_def exReconciler_def exCluster_def
        exKey_def Reconcile_def clientGet_def reconcilePending_def BuildPVC_def
        storedPhase_def Let_def)

text \<open>
  C1 at a Model with two source variants set (HuggingFace and S3), in a pass in
  which everything goes through: the Job builder returns a Job and no error, the
  pass stores phase Downloading and the Job is created, where the claim has an
  error, phase Failed and no Job.
\<close>
theorem several_sources_get_a_job:
  "populatedVariants (Source (Spec (exModel hfAndS3Source emptyStatus))) = 2
   \<and> \<not> isl (BuildDownloadJob (exModel hfAndS3Source emptyStatus))
   \<and> storedPhase (fst (Reconcile exReconciler
        (exCluster (exModel hfAndS3Source emptyStatus) Map.empty Map.empty) exKey)) exKey
       = Some ModelPhaseDownloading
   \<and> jobs (fst (Reconcile exReconciler
        (exCluster (exModel hfAndS3Source emptyStatus) Map.empty Map.empty) exKey))
        (''default'', ''model-download-m1'') \<noteq> None"
proof -
  let ?m = "exModel hfAndS3Source emptyStatus"
  let ?c = "exCluster ?m Map.empty Map.empty"
  have 1: "models ?c exKey = Some ?m" by (simp add: exCluster_def)
  have 2: "(Namespace ?m, Name ?m) = exKey" by (simp add: exModel_def exKey_def)
  have 3: "populatedVariants (Source (Spec ?m)) = 2"
    by (simp add: exModel_def hfAndS3Source_def hfSource_def s3Source_def noSource_def
          populatedVariants_def)
  then have p3: "populatedVariants (Source (Spec ?m)) \<noteq> 0" by simp
  have 4: "Phase (Status ?m) = [] \<or> Phase (Status ?m) = ModelPhasePending"
    by (simp add: exModel_def emptyStatus_def)
  have 5: "noFaults exReconciler" by (simp add: noFaults_def exReconciler_def)
  have 6: "parseQuantity exReconciler (Size (Storage (Spec ?m))) \<noteq> None"
    by (simp add: exReconciler_def exModel_def)
  have 7: "ownerRefFault exReconciler = None" by (simp add: exReconciler_def)
  have n: "(Namespace ?m, JobName (Name ?m)) = (''default'', ''model-download-m1'')"
    by (simp add: JobName_def JobPrefix_def exModel_def)
  have b: "\<not> isl (BuildDownloadJob ?m)" using 3 by (simp add: BuildDownloadJob_error_iff)
  from Reconcile_pending_ok(1,5) [OF 1 2 p3 4 5 6 7] 3 b
  show ?thesis unfolding n by simp
qed

text \<open>
  The half of the claim about a Model with no source variant set holds: the Job
  builder returns its error and no pass creates a Job; when the storage size
  parses and the fetch, the owner reference, the claim lookup and creation and
  the status write go through, the pass stores phase Failed. The builder returns
  an error exactly for the sources with no variant set.
\<close>
lemma zero_sources_fail:
  assumes "models c key = Some m" and "(Namespace m, Name m) = key"
    and "populatedVariants (Source (Spec m)) = 0"
    and "Phase (Status m) = [] \<or> Phase (Status m) = ModelPhasePending"
  shows "BuildDownloadJob m = Inl (''no source specified in model '' @ Name m)
       \<and> jobs (fst (Reconcile r c key)) = jobs c
       \<and> (getModelFault r = None \<and> parseQuantity r (Size (Storage (Spec m))) \<noteq> None
          \<and> ownerRefFault r = None \<and> getPVCFault r = None \<and> createPVCFault r = None
          \<and> statusUpdateFault r = None
          \<longrightarrow> storedPhase (fst (Reconcile r c key)) key = Some ModelPhaseFailed
              \<and> snd (Reconcile r c key) = Inr \<lparr> RequeueAfter = requeueFailed \<rparr>)
       \<and> isl (BuildDownloadJob m') = (populatedVariants (Source (Spec m')) = 0)"
proof (intro conjI impI)
  show "BuildDownloadJob m = Inl (''no source specified in model '' @ Name m)"
    by (rule BuildDownloadJob_none [OF assms(3)])
  show "jobs (fst (Reconcile r c key)) = jobs c"
    by (rule Reconcile_none_jobs [OF assms(1,3,4)])
  show "isl (BuildDownloadJob m') = (populatedVariants (Source (Spec m')) = 0)"
    by (rule BuildDownloadJob_error_iff)
next
  assume h: "getModelFault r = None \<and> parseQuantity r (Size (Storage (Spec m))) \<noteq> None
          \<and> ownerRefFault r = None \<and> getPVCFault r = None \<and> createPVCFault r = None
          \<and> statusUpdateFault r = None"
  then obtain ps where "reconcilePending r c m =
     updateStatus r (c\<lparr>pvcs := ps\<rparr>) m ModelPhaseFailed
       (''Failed to build download Job: no source specified in model '' @ Name m)"
    using reconcilePending_none [OF assms(3), of r c] by blast
  then have R: "Reconcile r c key = updateStatus r (c\<lparr>pvcs := ps\<rparr>) m ModelPhaseFailed
       (''Failed to build download Job: no source specified in model '' @ Name m)"
    using Reconcile_fetch [OF assms(1), of r] h assms(4) by (auto simp: Let_def)
  have st: "models (c\<lparr>pvcs := ps\<rparr>) (Namespace m, Name m) = Some m" using assms(1,2) by simp
  have k: "key = (Namespace m, Name m)" using assms(2) by simp
  from h have f: "statusUpdateFault r = None" by simp
  show "storedPhase (fst (Reconcile r c key)) key = Some ModelPhaseFailed"
    using updateStatus_written(4) [OF f st] R k by simp
  show "snd (Reconcile r c key) = Inr \<lparr> RequeueAfter = requeueFailed \<rparr>"
    using updateStatus_written(1) [OF f st] R by simp
qed


section \<open>Facts about the Downloading phase and the Ready condition\<close>

lemma reconcileDownloading_missing:
  assumes "getJobFault r = None" and "jobs c (Namespace m, JobName (Name m)) = None"
  shows "reconcileDownloading r c m = updateStatus r c m ModelPhasePending ''Job not found, recreating''"
  using assms by (simp add: reconcileDownloading_def clientGet_def IsNotFound_def)

lemma reconcileDownloading_succeeded:
  assumes "getJobFault r = None" and "jobs c (Namespace m, JobName (Name m)) = Some job"
    and "0 < sint (Succeeded (jobStatus job))"
  shows "reconcileDownloading r c m =
           updateStatusWithProgress r c m ModelPhaseReady ''Download complete'' 100"
  using assms by (simp add: reconcileDownloading_def clientGet_def)

lemma reconcileDownloading_failed:
  assumes "getJobFault r = None" and "jobs c (Namespace m, JobName (Name m)) = Some job"
    and "\<not> 0 < sint (Succeeded (jobStatus job))"
    and "failedCondition (jobStatus job) = Some cond"
  shows "reconcileDownloading r c m =
           updateStatus r c m ModelPhaseFailed (''Download failed: '' @ jcMessage cond)"
  using assms by (simp add: reconcileDownloading_def clientGet_def failedCondition_def)

lemma reconcileDownloading_running:
  assumes "getJobFault r = None" and "jobs c (Namespace m, JobName (Name m)) = Some job"
    and "\<not> 0 < sint (Succeeded (jobStatus job))"
    and "failedCondition (jobStatus job) = None"
    and "statusPVCName (Status m) \<noteq> []"
  shows "reconcileDownloading r c m = (c, Inr \<lparr> RequeueAfter = requeueDownloading \<rparr>)"
  using assms by (simp add: reconcileDownloading_def clientGet_def failedCondition_def)

lemma reconcileDownloading_backfill:
  assumes "getJobFault r = None" and "jobs c (Namespace m, JobName (Name m)) = Some job"
    and "\<not> 0 < sint (Succeeded (jobStatus job))"
    and "failedCondition (jobStatus job) = None"
    and "statusPVCName (Status m) = []"
    and "statusUpdateFault r = None" and "models c (Namespace m, Name m) = Some stored"
  shows "reconcileDownloading r c m =
    (c\<lparr>models := (models c)((Namespace m, Name m) \<mapsto>
          stored\<lparr>Status := (Status m)\<lparr>statusPVCName := PVCName (Name m),
                                         Message := progressMessage (jobStatus job),
                                         ObservedGeneration := Generation m\<rparr>\<rparr>)\<rparr>,
     Inr \<lparr> RequeueAfter = requeueDownloading \<rparr>)"
  using assms
  by (simp add: reconcileDownloading_def clientGet_def failedCondition_def Let_def
        statusUpdate_def progressMessage_def)

lemma Reconcile_downloading:
  assumes "models c key = Some m" and "getModelFault r = None"
    and "Phase (Status m) = ModelPhaseDownloading"
  shows "Reconcile r c key = reconcileDownloading r c m"
  using Reconcile_fetch [OF assms(1,2)] assms(3) by (simp add: Let_def)

lemma FindStatusCondition_Set:
  "FindStatusCondition (SetStatusCondition now cs new) (condType new) =
     Some (case FindStatusCondition cs (condType new) of
             None \<Rightarrow> new\<lparr>LastTransitionTime :=
                          (if LastTransitionTime new = 0 then now else LastTransitionTime new)\<rparr>
           | Some old \<Rightarrow>
               (if condStatus old \<noteq> condStatus new
                then old\<lparr>condStatus := condStatus new,
                         LastTransitionTime :=
                           (if LastTransitionTime new \<noteq> 0 then LastTransitionTime new else now)\<rparr>
                else old)
               \<lparr>Reason := Reason new, condMessage := condMessage new,
                condObservedGeneration := condObservedGeneration new\<rparr>)"
  by (induction cs) (simp_all add: Let_def)

lemma updateStatusWithProgress_condition:
  assumes "statusUpdateFault r = None" and "models c (Namespace m, Name m) = Some stored"
  shows "map_option condStatus
           (storedReadyCondition (fst (updateStatusWithProgress r c m phase msg prog))
              (Namespace m, Name m))
         = Some (if phase = ModelPhaseReady then ConditionTrue else ConditionFalse)"
    and "map_option LastTransitionTime
           (storedReadyCondition (fst (updateStatusWithProgress r c m phase msg prog))
              (Namespace m, Name m))
         = Some (case readyCondition (Status m) of
                   None \<Rightarrow> Now r
                 | Some old \<Rightarrow>
                     if condStatus old = (if phase = ModelPhaseReady then ConditionTrue else ConditionFalse)
                     then LastTransitionTime old else Now r)"
proof -
  let ?new = "\<lambda>s rs. \<lparr> condType = conditionTypeReady, condStatus = s,
                        condObservedGeneration = Generation m,
                        LastTransitionTime = Now r, Reason = rs, condMessage = msg \<rparr>"
  have F: "FindStatusCondition (SetStatusCondition (Now r) cs (?new s rs)) conditionTypeReady =
     Some (case FindStatusCondition cs conditionTypeReady of
             None \<Rightarrow> ?new s rs
           | Some old \<Rightarrow>
               (if condStatus old \<noteq> s
                then old\<lparr>condStatus := s, LastTransitionTime := Now r\<rparr>
                else old)
               \<lparr>Reason := rs, condMessage := msg,
                condObservedGeneration := Generation m\<rparr>)" for cs s rs
    using FindStatusCondition_Set [of "Now r" cs "?new s rs"]
    by (simp split: option.splits)
  show "map_option condStatus
           (storedReadyCondition (fst (updateStatusWithProgress r c m phase msg prog))
              (Namespace m, Name m))
         = Some (if phase = ModelPhaseReady then ConditionTrue else ConditionFalse)"
    using assms
    by (simp add: updateStatusWithProgress_def statusUpdate_def storedStatus_def
          storedReadyCondition_def readyCondition_def Let_def F split: option.splits)
  show "map_option LastTransitionTime
           (storedReadyCondition (fst (updateStatusWithProgress r c m phase msg prog))
              (Namespace m, Name m))
         = Some (case readyCondition (Status m) of
                   None \<Rightarrow> Now r
                 | Some old \<Rightarrow>
                     if condStatus old = (if phase = ModelPhaseReady then ConditionTrue else ConditionFalse)
                     then LastTransitionTime old else Now r)"
    using assms
    by (simp add: updateStatusWithProgress_def statusUpdate_def storedStatus_def
          storedReadyCondition_def readyCondition_def Let_def F split: option.splits)
qed

lemma Reconcile_downloading_running:
  assumes "models c key = Some m" and "getModelFault r = None"
    and "Phase (Status m) = ModelPhaseDownloading"
    and "getJobFault r = None" and "jobs c (Namespace m, JobName (Name m)) = Some job"
    and "\<not> 0 < sint (Succeeded (jobStatus job))"
    and "failedCondition (jobStatus job) = None"
    and "statusPVCName (Status m) \<noteq> []"
  shows "Reconcile r c key = (c, Inr \<lparr> RequeueAfter = requeueDownloading \<rparr>)"
  using Reconcile_downloading [OF assms(1,2,3)] reconcileDownloading_running [OF assms(4-8)]
  by simp


section \<open>From Downloading\<close>

text \<open>
  C3, as the code has it. For a stored Model in phase Downloading, in a pass
  whose fetch, Job lookup and status write go through: if the Job is not found
  the pass stores Pending; if the Job's succeeded counter is positive it stores
  Ready with progress 100; otherwise, if the failed counter is positive and the
  Job has a condition of type Failed with status True, it stores Failed with the
  message "Download failed: " followed by that condition's message; in every
  other case the phase stays Downloading and the requeue delay is the
  Downloading interval.
\<close>
theorem downloading_pass:
  assumes "models c key = Some m" and "(Namespace m, Name m) = key"
    and "Phase (Status m) = ModelPhaseDownloading"
    and "getModelFault r = None" and "getJobFault r = None"
    and "statusUpdateFault r = None"
  shows "(jobs c (Namespace m, JobName (Name m)) = None
          \<longrightarrow> storedPhase (fst (Reconcile r c key)) key = Some ModelPhasePending)
       \<and> (jobs c (Namespace m, JobName (Name m)) = Some job
          \<and> 0 < sint (Succeeded (jobStatus job))
          \<longrightarrow> storedPhase (fst (Reconcile r c key)) key = Some ModelPhaseReady
              \<and> map_option Progress (storedStatus (fst (Reconcile r c key)) key) = Some 100)
       \<and> (jobs c (Namespace m, JobName (Name m)) = Some job
          \<and> \<not> 0 < sint (Succeeded (jobStatus job))
          \<and> failedCondition (jobStatus job) = Some cond
          \<longrightarrow> storedPhase (fst (Reconcile r c key)) key = Some ModelPhaseFailed
              \<and> map_option Message (storedStatus (fst (Reconcile r c key)) key)
                  = Some (''Download failed: '' @ jcMessage cond))
       \<and> (jobs c (Namespace m, JobName (Name m)) = Some job
          \<and> \<not> 0 < sint (Succeeded (jobStatus job))
          \<and> failedCondition (jobStatus job) = None
          \<longrightarrow> storedPhase (fst (Reconcile r c key)) key = Some ModelPhaseDownloading
              \<and> snd (Reconcile r c key) = Inr \<lparr> RequeueAfter = requeueDownloading \<rparr>)"
proof -
  note R = Reconcile_downloading [OF assms(1,4,3)]
  note f = assms(6)
  have st: "models c (Namespace m, Name m) = Some m" using assms(1,2) by simp
  have k: "key = (Namespace m, Name m)" using assms(2) by simp
  have 1: "storedPhase (fst (Reconcile r c key)) key = Some ModelPhasePending"
    if "jobs c (Namespace m, JobName (Name m)) = None"
    using reconcileDownloading_missing [OF assms(5) that(1)]
      updateStatus_written(4) [OF f st] R k by simp
  have 2: "storedPhase (fst (Reconcile r c key)) key = Some ModelPhaseReady
           \<and> map_option Progress (storedStatus (fst (Reconcile r c key)) key) = Some 100"
    if "jobs c (Namespace m, JobName (Name m)) = Some job"
       "0 < sint (Succeeded (jobStatus job))"
    using reconcileDownloading_succeeded [OF assms(5) that(1,2)]
      updateStatusWithProgress_written(4,6) [OF f st] R k by simp
  have 3: "storedPhase (fst (Reconcile r c key)) key = Some ModelPhaseFailed
              \<and> map_option Message (storedStatus (fst (Reconcile r c key)) key)
                  = Some (''Download failed: '' @ jcMessage cond)"
    if "jobs c (Namespace m, JobName (Name m)) = Some job"
       "\<not> 0 < sint (Succeeded (jobStatus job))"
       "failedCondition (jobStatus job) = Some cond"
    using reconcileDownloading_failed [OF assms(5) that(1,2,3)]
      updateStatus_written(4,5) [OF f st] R k by simp
  have 4: "storedPhase (fst (Reconcile r c key)) key = Some ModelPhaseDownloading
              \<and> snd (Reconcile r c key) = Inr \<lparr> RequeueAfter = requeueDownloading \<rparr>"
    if j: "jobs c (Namespace m, JobName (Name m)) = Some job"
       "\<not> 0 < sint (Succeeded (jobStatus job))"
       "failedCondition (jobStatus job) = None"
  proof (cases "statusPVCName (Status m) = []")
    case True
    show ?thesis
      using reconcileDownloading_backfill [OF assms(5) j True f st] R k assms(3)
      by (simp add: storedPhase_def)
  next
    case False
    show ?thesis
      using reconcileDownloading_running [OF assms(5) j False] R assms(1,3)
      by (simp add: storedPhase_def)
  qed
  show ?thesis
    apply (intro conjI impI)
    subgoal using 1 by simp
    subgoal using 2 by simp
    subgoal using 2 by simp
    subgoal using 3 by simp
    subgoal using 3 by simp
    subgoal using 4 by simp
    subgoal using 4 by simp
    done
qed

theorem downloading_pass_witness:
  "storedPhase (fst (Reconcile exReconciler
        (exCluster (exModel hfSource downloadingStatus) Map.empty Map.empty) exKey)) exKey
      = Some ModelPhasePending
   \<and> storedPhase (fst (Reconcile exReconciler
        (exCluster (exModel hfSource downloadingStatus) Map.empty
           [exJobKey \<mapsto> exJob succeededStatus]) exKey)) exKey
      = Some ModelPhaseReady
   \<and> map_option Message (storedStatus (fst (Reconcile exReconciler
        (exCluster (exModel hfSource downloadingStatus) Map.empty
           [exJobKey \<mapsto> exJob failedStatus]) exKey)) exKey)
      = Some ''Download failed: Job has reached the specified backoff limit''
   \<and> storedPhase (fst (Reconcile exReconciler
        (exCluster (exModel hfSource downloadingStatus) Map.empty
           [exJobKey \<mapsto> exJob runningStatus]) exKey)) exKey
      = Some ModelPhaseDownloading
   \<and> snd (Reconcile exReconciler
        (exCluster (exModel hfSource downloadingStatus) Map.empty
           [exJobKey \<mapsto> exJob runningStatus]) exKey)
      = Inr \<lparr> RequeueAfter = requeueDownloading \<rparr>"
proof -
  let ?r = exReconciler
  let ?m = "exModel hfSource downloadingStatus"
  let ?js = "\<lambda>st. [exJobKey \<mapsto> exJob st]"
  have f: "getModelFault ?r = None" "getJobFault ?r = None" "statusUpdateFault ?r = None"
    by (simp_all add: exReconciler_def)
  have k: "(Namespace ?m, Name ?m) = exKey"
    by (simp_all add: exModel_def exKey_def)
  have p: "Phase (Status ?m) = ModelPhaseDownloading"
    by (simp_all add: exModel_def downloadingStatus_def emptyStatus_def)
  have s: "models (exCluster ?m ps js) exKey = Some ?m" for ps js
    by (simp_all add: exCluster_def)
  have jk: "(Namespace ?m, JobName (Name ?m)) = exJobKey"
    by (simp_all add: exModel_def exJobKey_def JobName_def JobPrefix_def)
  have j: "jobs (exCluster mm ps js) = js" for mm ps js by (simp add: exCluster_def)
  have js: "jobStatus (exJob st) = st" for st by (simp add: exJob_def)
  have a2: "0 < sint (Succeeded succeededStatus)"
    by code_simp
  have a3: "\<not> 0 < sint (Succeeded failedStatus)" "failedCondition failedStatus = Some backoffCondition"
    by (simp_all add: failedStatus_def emptyJobStatus_def failedCondition_def backoffCondition_def)
  have a4: "\<not> 0 < sint (Succeeded runningStatus)" "failedCondition runningStatus = None"
    by (simp_all add: runningStatus_def emptyJobStatus_def failedCondition_def)
  have bm: "jcMessage backoffCondition = ''Job has reached the specified backoff limit''"
    by (simp add: backoffCondition_def)
  note T = downloading_pass [OF s k p f]
  have b1: "storedPhase (fst (Reconcile ?r (exCluster ?m Map.empty Map.empty) exKey)) exKey
      = Some ModelPhasePending"
    using T [of Map.empty Map.empty, THEN conjunct1]
    by (simp add: jk j)
  have b2: "storedPhase (fst (Reconcile ?r (exCluster ?m Map.empty (?js succeededStatus)) exKey)) exKey
      = Some ModelPhaseReady"
    using T [of Map.empty "?js succeededStatus"
        "exJob succeededStatus", THEN conjunct2, THEN conjunct1] a2
    by (simp add: jk j js)
  have b3: "map_option Message (storedStatus (fst (Reconcile ?r
        (exCluster ?m Map.empty (?js failedStatus)) exKey)) exKey)
      = Some ''Download failed: Job has reached the specified backoff limit''"
    using T [of Map.empty "?js failedStatus"
        "exJob failedStatus" backoffCondition, THEN conjunct2, THEN conjunct2, THEN conjunct1] a3
    by (simp add: jk j js bm)
  have b4: "storedPhase (fst (Reconcile ?r (exCluster ?m Map.empty (?js runningStatus)) exKey)) exKey
      = Some ModelPhaseDownloading
    \<and> snd (Reconcile ?r (exCluster ?m Map.empty (?js runningStatus)) exKey)
      = Inr \<lparr> RequeueAfter = requeueDownloading \<rparr>"
    using T [of Map.empty "?js runningStatus"
        "exJob runningStatus", THEN conjunct2, THEN conjunct2, THEN conjunct2] a4
    by (simp add: jk j js)
  from b1 b2 b3 b4 show ?thesis by (intro conjI) simp_all
qed

text \<open>
  A Job that carries a condition of type Failed with status True while its failed
  counter is zero: the pass leaves the Model in Downloading.
\<close>
theorem downloading_pass_counterexample:
  "jobConditions deadlineStatus =
      [\<lparr> jcType = JobFailed, jcStatus = ConditionTrue, jcReason = ''DeadlineExceeded'',
         jcMessage = ''Job was active longer than specified deadline'' \<rparr>]
   \<and> sint (Failed deadlineStatus) = 0
   \<and> storedPhase (fst (Reconcile exReconciler
        (exCluster (exModel hfSource downloadingStatus) Map.empty
           [exJobKey \<mapsto> exJob deadlineStatus]) exKey)) exKey
      = Some ModelPhaseDownloading"
proof -
  let ?r = exReconciler
  let ?m = "exModel hfSource downloadingStatus"
  let ?js = "\<lambda>st. [exJobKey \<mapsto> exJob st]"
  have f: "getModelFault ?r = None" "getJobFault ?r = None"
    by (simp_all add: exReconciler_def)
  have p: "Phase (Status ?m) = ModelPhaseDownloading"
    by (simp add: exModel_def downloadingStatus_def emptyStatus_def)
  have s: "models (exCluster ?m ps js) exKey = Some ?m" for ps js
    by (simp add: exCluster_def)
  have j: "jobs (exCluster ?m Map.empty (?js st)) (Namespace ?m, JobName (Name ?m)) = Some (exJob st)" for st
    by (simp add: exCluster_def exModel_def exJobKey_def JobName_def JobPrefix_def)
  have pv: "statusPVCName (Status ?m) \<noteq> []"
    by (simp add: exModel_def downloadingStatus_def emptyStatus_def)
  have a1: "\<not> 0 < sint (Succeeded (jobStatus (exJob deadlineStatus)))"
     "failedCondition (jobStatus (exJob deadlineStatus)) = None"
    by (simp_all add: exJob_def deadlineStatus_def emptyJobStatus_def failedCondition_def)
  have c1: "jobConditions deadlineStatus =
      [\<lparr> jcType = JobFailed, jcStatus = ConditionTrue, jcReason = ''DeadlineExceeded'',
         jcMessage = ''Job was active longer than specified deadline'' \<rparr>]"
    by (simp add: deadlineStatus_def emptyJobStatus_def)
  have c0: "sint (Failed deadlineStatus) = 0"
    by (simp add: deadlineStatus_def emptyJobStatus_def)
  have c2: "storedPhase (fst (Reconcile ?r (exCluster ?m Map.empty (?js deadlineStatus)) exKey)) exKey
      = Some ModelPhaseDownloading"
    using Reconcile_downloading_running
      [OF s [of Map.empty "?js deadlineStatus"] f(1) p f(2) j a1 pv]
    by (simp add: storedPhase_def exCluster_def exModel_def downloadingStatus_def)
  from c1 c0 c2 show ?thesis by (intro conjI)
qed

section \<open>Facts about the status writes of a pass\<close>

lemma keptOrWritten_same: "models c' = before \<Longrightarrow> keptOrWritten r before m c'"
  by (simp add: keptOrWritten_def)

lemma updateStatusWithProgress_fault:
  "statusUpdateFault r = Some e \<Longrightarrow> fst (updateStatusWithProgress r c m phase msg prog) = c"
  by (simp add: updateStatusWithProgress_def statusUpdate_def Let_def)

lemma updateStatusWithProgress_gone:
  "models c (Namespace m, Name m) = None \<Longrightarrow>
   fst (updateStatusWithProgress r c m phase msg prog) = c"
  by (simp add: updateStatusWithProgress_def statusUpdate_def Let_def split: option.splits)

lemma keptOrWritten_write:
  assumes "models c0 = before"
  shows "keptOrWritten r before m (fst (updateStatusWithProgress r c0 m phase msg prog))"
proof (cases "statusUpdateFault r")
  case (Some e)
  then show ?thesis using assms
    by (simp add: updateStatusWithProgress_fault keptOrWritten_def)
next
  case f: None
  show ?thesis
  proof (cases "models c0 (Namespace m, Name m)")
    case None
    then show ?thesis using assms
      by (simp add: updateStatusWithProgress_gone keptOrWritten_def)
  next
    case s: (Some stored)
    let ?c' = "fst (updateStatusWithProgress r c0 m phase msg prog)"
    let ?k = "(Namespace m, Name m)"
    obtain x where x: "models ?c' ?k = Some x" "Phase (Status x) = phase"
      using updateStatusWithProgress_written(4) [OF f s, of phase msg prog]
      by (auto simp: storedPhase_def)
    define st' where "st' = Status x"
    have st: "storedStatus ?c' ?k = Some st'"
      using x by (simp add: storedStatus_def st'_def)
    have ph: "Phase st' = phase" using x by (simp add: st'_def)
    have pv: "statusPVCName st' = PVCName (Name m)"
      using updateStatusWithProgress_written(7) [OF f s, of phase msg prog] st by simp
    have c1: "map_option condStatus (readyCondition st')
          = Some (if phase = ModelPhaseReady then ConditionTrue else ConditionFalse)"
      using updateStatusWithProgress_condition(1) [OF f s, of phase msg prog] st
      by (simp add: storedReadyCondition_def)
    have c2: "map_option LastTransitionTime (readyCondition st')
         = Some (case readyCondition (Status m) of
                   None \<Rightarrow> Now r
                 | Some old \<Rightarrow>
                     if condStatus old = (if phase = ModelPhaseReady then ConditionTrue else ConditionFalse)
                     then LastTransitionTime old else Now r)"
      using updateStatusWithProgress_condition(2) [OF f s, of phase msg prog] st
      by (simp add: storedReadyCondition_def)
    have "readyConditionWritten r m st'"
      unfolding readyConditionWritten_def ph using pv c1 c2 by simp
    then show ?thesis using st by (simp add: keptOrWritten_def)
  qed
qed

lemma keptOrWritten_updateStatus:
  "models c0 = before \<Longrightarrow> keptOrWritten r before m (fst (updateStatus r c0 m phase msg))"
  unfolding updateStatus_def by (rule keptOrWritten_write)

lemma reconcilePendingJob_writes:
  "models c0 = before \<Longrightarrow> keptOrWritten r before m (fst (reconcilePendingJob r c0 m))"
  unfolding reconcilePendingJob_def Let_def
  by (simp add: keptOrWritten_updateStatus keptOrWritten_same split: sum.splits option.splits)

lemma reconcilePending_writes:
  "keptOrWritten r (models c) m (fst (reconcilePending r c m))"
  unfolding reconcilePending_def Let_def
  by (simp add: keptOrWritten_updateStatus keptOrWritten_same reconcilePendingJob_writes
        split: sum.splits option.splits)

lemma reconcileDownloading_writes:
  assumes "statusInvariant (Status m)" and "Phase (Status m) = ModelPhaseDownloading"
  shows "keptOrWritten r (models c) m (fst (reconcileDownloading r c m))"
proof -
  have p: "statusPVCName (Status m) \<noteq> []" using assms by (simp add: statusInvariant_def)
  show ?thesis
    unfolding reconcileDownloading_def Let_def
    using p by (simp add: keptOrWritten_updateStatus keptOrWritten_same keptOrWritten_write
        split: sum.splits option.splits)
qed

lemma reconcileReady_writes:
  "keptOrWritten r (models c) m (fst (reconcileReady r c m))"
  unfolding reconcileReady_def Let_def
  by (simp add: keptOrWritten_updateStatus keptOrWritten_same split: sum.splits option.splits)

lemma reconcileFailed_writes:
  "keptOrWritten r (models c) m (fst (reconcileFailed r c m))"
  unfolding reconcileFailed_def Let_def
  by (simp add: keptOrWritten_updateStatus keptOrWritten_same split: sum.splits option.splits)

lemma Reconcile_writes:
  assumes "models c key = Some m" and "statusInvariant (Status m)"
  shows "keptOrWritten r (models c) m (fst (Reconcile r c key))"
proof (cases "getModelFault r")
  case (Some e)
  then show ?thesis by (simp add: Reconcile_fault keptOrWritten_same)
next
  case None
  show ?thesis
    unfolding Reconcile_fetch [OF assms(1) None] Let_def
    using reconcilePending_writes [of r c m] reconcileDownloading_writes [OF assms(2), of r c]
      reconcileReady_writes [of r c m] reconcileFailed_writes [of r c m]
      keptOrWritten_updateStatus [of c "models c" r m]
    by (simp split: if_splits)
qed

lemma storedPhase_storedStatus: "storedPhase c key = map_option Phase (storedStatus c key)"
  by (simp add: storedPhase_def storedStatus_def option.map_comp comp_def)


lemma statusInvariant_emptyStatus: "statusInvariant emptyStatus"
  by (simp add: statusInvariant_def emptyStatus_def)


section \<open>The Ready condition\<close>

text \<open>
  C5. The Model is stored with a status that is empty or was written by the
  reconciler (in phase Downloading it carries a claim name). A status write of
  \<open>updateStatusWithProgress\<close>, and so of \<open>updateStatus\<close>, that goes through stores a
  condition of type Ready whose status is True when the new phase is Ready and
  False otherwise; its transition time is the one stored before when the Ready
  condition stored before had the same status, and the current time otherwise.
  After any pass, the stored status is as it was or carries such a condition for
  its new phase: a pass that writes the same status again leaves the transition
  time unchanged. A Downloading pass that finds the Job succeeded does write:
  it stores phase Ready and a Ready condition with status True. And the status
  stored after a pass again carries a claim name when its phase is Downloading.
\<close>
theorem ready_condition_on_status_write:
  assumes "models c key = Some m" and "(Namespace m, Name m) = key"
    and "statusInvariant (Status m)"
  shows "(statusUpdateFault r = None
          \<longrightarrow> storedPhase (fst (updateStatusWithProgress r c m phase msg prog)) key = Some phase
              \<and> map_option condStatus
                   (storedReadyCondition (fst (updateStatusWithProgress r c m phase msg prog)) key)
                 = Some (if phase = ModelPhaseReady then ConditionTrue else ConditionFalse)
              \<and> map_option LastTransitionTime
                   (storedReadyCondition (fst (updateStatusWithProgress r c m phase msg prog)) key)
                 = Some (case readyCondition (Status m) of
                           None \<Rightarrow> Now r
                         | Some old \<Rightarrow>
                             if condStatus old
                                = (if phase = ModelPhaseReady then ConditionTrue else ConditionFalse)
                             then LastTransitionTime old else Now r))
       \<and> updateStatus r c m phase msg
           = updateStatusWithProgress r c m phase msg (Progress (Status m))
       \<and> (storedStatus (fst (Reconcile r c key)) key = storedStatus c key
           \<or> (map_option condStatus (storedReadyCondition (fst (Reconcile r c key)) key)
                 = Some (if storedPhase (fst (Reconcile r c key)) key = Some ModelPhaseReady
                         then ConditionTrue else ConditionFalse)
               \<and> map_option LastTransitionTime
                   (storedReadyCondition (fst (Reconcile r c key)) key)
                 = Some (case readyCondition (Status m) of
                           None \<Rightarrow> Now r
                         | Some old \<Rightarrow>
                             if condStatus old
                                = (if storedPhase (fst (Reconcile r c key)) key
                                      = Some ModelPhaseReady
                                   then ConditionTrue else ConditionFalse)
                             then LastTransitionTime old else Now r)))
       \<and> (Phase (Status m) = ModelPhaseDownloading \<and> getModelFault r = None
           \<and> getJobFault r = None \<and> statusUpdateFault r = None
           \<and> jobs c (Namespace m, JobName (Name m)) = Some job
           \<and> 0 < sint (Succeeded (jobStatus job))
          \<longrightarrow> storedPhase (fst (Reconcile r c key)) key = Some ModelPhaseReady
              \<and> map_option condStatus (storedReadyCondition (fst (Reconcile r c key)) key)
                 = Some ConditionTrue)
       \<and> map_option statusInvariant (storedStatus (fst (Reconcile r c key)) key) = Some True"
proof -
  have st: "models c (Namespace m, Name m) = Some m" using assms(1,2) by simp
  have k: "key = (Namespace m, Name m)" using assms(2) by simp
  have A: "storedPhase (fst (updateStatusWithProgress r c m phase msg prog)) key = Some phase
              \<and> map_option condStatus
                   (storedReadyCondition (fst (updateStatusWithProgress r c m phase msg prog)) key)
                 = Some (if phase = ModelPhaseReady then ConditionTrue else ConditionFalse)
              \<and> map_option LastTransitionTime
                   (storedReadyCondition (fst (updateStatusWithProgress r c m phase msg prog)) key)
                 = Some (case readyCondition (Status m) of
                           None \<Rightarrow> Now r
                         | Some old \<Rightarrow>
                             if condStatus old
                                = (if phase = ModelPhaseReady then ConditionTrue else ConditionFalse)
                             then LastTransitionTime old else Now r)"
    if f: "statusUpdateFault r = None"
    using updateStatusWithProgress_written(4) [OF f st, of phase msg prog]
      updateStatusWithProgress_condition [OF f st, of phase msg prog] k
    by simp
  have U: "updateStatus r c m phase msg
           = updateStatusWithProgress r c m phase msg (Progress (Status m))"
    by (simp add: updateStatus_def)
  let ?c' = "fst (Reconcile r c key)"
  note W = Reconcile_writes [OF assms(1,3), of r]
  have B: "storedStatus ?c' key = storedStatus c key
           \<or> (map_option condStatus (storedReadyCondition ?c' key)
                 = Some (if storedPhase ?c' key = Some ModelPhaseReady
                         then ConditionTrue else ConditionFalse)
               \<and> map_option LastTransitionTime (storedReadyCondition ?c' key)
                 = Some (case readyCondition (Status m) of
                           None \<Rightarrow> Now r
                         | Some old \<Rightarrow>
                             if condStatus old
                                = (if storedPhase ?c' key = Some ModelPhaseReady
                                   then ConditionTrue else ConditionFalse)
                             then LastTransitionTime old else Now r))"
  proof (cases "models ?c' = models c")
    case True
    then show ?thesis by (simp add: storedStatus_def)
  next
    case False
    then obtain st' where s': "storedStatus ?c' key = Some st'" "readyConditionWritten r m st'"
      using W k by (auto simp: keptOrWritten_def)
    have e: "storedPhase ?c' key = Some (Phase st')" "storedReadyCondition ?c' key = readyCondition st'"
      using s'(1) by (auto simp: storedPhase_def storedStatus_def storedReadyCondition_def)
    have "map_option condStatus (readyCondition st')
          = Some (if Phase st' = ModelPhaseReady then ConditionTrue else ConditionFalse)
      \<and> map_option LastTransitionTime (readyCondition st')
          = Some (case readyCondition (Status m) of
                    None \<Rightarrow> Now r
                  | Some old \<Rightarrow>
                      if condStatus old
                         = (if Phase st' = ModelPhaseReady then ConditionTrue else ConditionFalse)
                      then LastTransitionTime old else Now r)"
      using s'(2) unfolding readyConditionWritten_def by blast
    then show ?thesis unfolding e option.inject by (rule disjI2)
  qed
  have C: "storedPhase ?c' key = Some ModelPhaseReady
              \<and> map_option condStatus (storedReadyCondition ?c' key) = Some ConditionTrue"
    if "Phase (Status m) = ModelPhaseDownloading" "getModelFault r = None"
       "getJobFault r = None" "statusUpdateFault r = None"
       "jobs c (Namespace m, JobName (Name m)) = Some job"
       "0 < sint (Succeeded (jobStatus job))"
    using Reconcile_downloading [OF assms(1) that(2,1)]
      reconcileDownloading_succeeded [OF that(3,5,6)]
      updateStatusWithProgress_written(4) [OF that(4) st, of ModelPhaseReady]
      updateStatusWithProgress_condition(1) [OF that(4) st, of ModelPhaseReady] k
    by simp
  have D: "map_option statusInvariant (storedStatus ?c' key) = Some True"
  proof (cases "models ?c' = models c")
    case True
    then show ?thesis using assms(1,3) by (simp add: storedStatus_def)
  next
    case False
    then obtain st' where s': "storedStatus ?c' key = Some st'" "readyConditionWritten r m st'"
      using W k by (auto simp: keptOrWritten_def)
    then have "statusPVCName st' \<noteq> []"
      by (simp add: readyConditionWritten_def PVCName_def PVCPrefix_def)
    then show ?thesis using s'(1) by (simp add: statusInvariant_def)
  qed
  show ?thesis
    apply (intro conjI impI)
    subgoal using A by simp
    subgoal using A by simp
    subgoal using A by simp
    subgoal by (rule U)
    subgoal by (rule B)
    subgoal using C by simp
    subgoal using C by simp
    subgoal by (rule D)
    done
qed

theorem ready_condition_on_status_write_witness:
  "map_option condStatus
      (storedReadyCondition (fst (updateStatusWithProgress exReconciler
          (exCluster (exModel hfSource (downloadingStatus\<lparr>Conditions := [inProgressCondition]\<rparr>))
             Map.empty [exJobKey \<mapsto> exJob succeededStatus])
          (exModel hfSource (downloadingStatus\<lparr>Conditions := [inProgressCondition]\<rparr>))
          ModelPhaseFailed ''Download failed: x'' 0)) exKey)
     = Some ConditionFalse
   \<and> map_option LastTransitionTime
      (storedReadyCondition (fst (updateStatusWithProgress exReconciler
          (exCluster (exModel hfSource (downloadingStatus\<lparr>Conditions := [inProgressCondition]\<rparr>))
             Map.empty [exJobKey \<mapsto> exJob succeededStatus])
          (exModel hfSource (downloadingStatus\<lparr>Conditions := [inProgressCondition]\<rparr>))
          ModelPhaseFailed ''Download failed: x'' 0)) exKey)
     = Some 5
   \<and> storedPhase (fst (Reconcile exReconciler
          (exCluster (exModel hfSource (downloadingStatus\<lparr>Conditions := [inProgressCondition]\<rparr>))
             Map.empty [exJobKey \<mapsto> exJob succeededStatus]) exKey)) exKey
     = Some ModelPhaseReady
   \<and> map_option condStatus (storedReadyCondition (fst (Reconcile exReconciler
          (exCluster (exModel hfSource (downloadingStatus\<lparr>Conditions := [inProgressCondition]\<rparr>))
             Map.empty [exJobKey \<mapsto> exJob succeededStatus]) exKey)) exKey)
     = Some ConditionTrue
   \<and> map_option LastTransitionTime (storedReadyCondition (fst (Reconcile exReconciler
          (exCluster (exModel hfSource (downloadingStatus\<lparr>Conditions := [inProgressCondition]\<rparr>))
             Map.empty [exJobKey \<mapsto> exJob succeededStatus]) exKey)) exKey)
     = Some 1700000000
   \<and> map_option statusInvariant (storedStatus (fst (Reconcile exReconciler
          (exCluster (exModel hfSource (downloadingStatus\<lparr>Conditions := [inProgressCondition]\<rparr>))
             Map.empty [exJobKey \<mapsto> exJob succeededStatus]) exKey)) exKey)
     = Some True"
proof -
  let ?r = exReconciler
  let ?m = "exModel hfSource (downloadingStatus\<lparr>Conditions := [inProgressCondition]\<rparr>)"
  let ?c = "exCluster ?m Map.empty [exJobKey \<mapsto> exJob succeededStatus]"
  let ?d = "fst (Reconcile ?r ?c exKey)"
  have s: "models ?c exKey = Some ?m" by (simp add: exCluster_def)
  have k: "(Namespace ?m, Name ?m) = exKey" by (simp add: exModel_def exKey_def)
  have i: "statusInvariant (Status ?m)"
    by (simp add: statusInvariant_def exModel_def downloadingStatus_def emptyStatus_def)
  have f: "statusUpdateFault ?r = None" by (simp add: exReconciler_def)
  have rc: "readyCondition (Status ?m) = Some inProgressCondition"
    by (simp add: readyCondition_def exModel_def inProgressCondition_def)
  have ic: "condStatus inProgressCondition = ConditionFalse"
      "LastTransitionTime inProgressCondition = 5"
    by (simp_all add: inProgressCondition_def)
  have n: "Now ?r = 1700000000" by (simp add: exReconciler_def)
  have h: "Phase (Status ?m) = ModelPhaseDownloading \<and> getModelFault ?r = None
           \<and> getJobFault ?r = None \<and> statusUpdateFault ?r = None
           \<and> jobs ?c (Namespace ?m, JobName (Name ?m)) = Some (exJob succeededStatus)
           \<and> 0 < sint (Succeeded (jobStatus (exJob succeededStatus)))"
  proof -
    have "0 < sint (Succeeded succeededStatus)" by code_simp
    then show ?thesis
      by (simp add: exReconciler_def exCluster_def exModel_def exJobKey_def JobName_def
            JobPrefix_def exJob_def downloadingStatus_def emptyStatus_def)
  qed
  note T = ready_condition_on_status_write [OF s k i]
  have a: "map_option condStatus
      (storedReadyCondition (fst (updateStatusWithProgress ?r ?c ?m
          ModelPhaseFailed ''Download failed: x'' 0)) exKey) = Some ConditionFalse
    \<and> map_option LastTransitionTime
      (storedReadyCondition (fst (updateStatusWithProgress ?r ?c ?m
          ModelPhaseFailed ''Download failed: x'' 0)) exKey) = Some 5"
    using T [of ?r ModelPhaseFailed "''Download failed: x''" 0, THEN conjunct1, THEN mp, OF f]
    by (simp add: rc ic)
  have cc: "storedPhase ?d exKey = Some ModelPhaseReady
     \<and> map_option condStatus (storedReadyCondition ?d exKey) = Some ConditionTrue"
    by (rule T [where r = ?r and job = "exJob succeededStatus",
          THEN conjunct2, THEN conjunct2, THEN conjunct2, THEN conjunct1, THEN mp, OF h])
  have "storedPhase ?c exKey = Some ModelPhaseDownloading"
    by (simp add: storedPhase_def exCluster_def exModel_def downloadingStatus_def)
  with cc have ne: "storedStatus ?d exKey \<noteq> storedStatus ?c exKey"
    by (auto simp: storedPhase_storedStatus)
  have b: "map_option LastTransitionTime (storedReadyCondition ?d exKey) = Some 1700000000"
    using T [of ?r, THEN conjunct2, THEN conjunct2, THEN conjunct1] ne cc
    by (simp add: rc ic n)
  have d: "map_option statusInvariant (storedStatus ?d exKey) = Some True"
    by (rule T [of ?r, THEN conjunct2, THEN conjunct2, THEN conjunct2, THEN conjunct2])
  from a cc b d show ?thesis by (intro conjI) simp_all
qed

section \<open>Facts about the webhook\<close>

lemma containerIndex_Some:
  "containerIndex cs n = Some i \<Longrightarrow> i < length cs \<and> containerName (cs ! i) = n"
  by (induction cs arbitrary: i) (auto split: if_splits)

lemma containerIndex_cong:
  "map containerName cs = map containerName cs' \<Longrightarrow> containerIndex cs n = containerIndex cs' n"
proof (induction cs arbitrary: cs')
  case Nil
  then show ?case by simp
next
  case (Cons a cs)
  then obtain b bs where "cs' = b # bs" by (cases cs') auto
  with Cons show ?case by auto
qed

lemma names_update:
  "i < length cs \<Longrightarrow> containerName x = containerName (cs ! i) \<Longrightarrow>
   map containerName (cs[i := x]) = map containerName cs"
  by (simp add: map_update list_update_same_conv)

lemma injectVolume_containers [simp]:
  "Containers (injectVolume pod model) = Containers pod"
  "Annotations (injectVolume pod model) = Annotations pod"
  "Labels (injectVolume pod model) = Labels pod"
  by (simp_all add: injectVolume_def Let_def)

lemma injectVolumeMount_names:
  assumes "injectVolumeMount mi pod model opts = Inr pod'"
  shows "map containerName (Containers pod') = map containerName (Containers pod)"
  using assms
  by (auto simp: injectVolumeMount_def Let_def names_update
        split: if_splits option.splits dest!: containerIndex_Some)

lemma injectVolumeMount_error:
  "injectVolumeMount mi pod model opts =
     (if Containers pod = [] then Inl ''pod has no containers''
      else if ContainerName opts \<noteq> [] \<and> containerIndex (Containers pod) (ContainerName opts) = None
      then Inl (''container '' @ quote mi (ContainerName opts) @ '' not found'')
      else Inr (projr (injectVolumeMount mi pod model opts)))"
  by (auto simp: injectVolumeMount_def Let_def split: option.splits)

lemma injectEnvVars_ok:
  assumes "Containers pod \<noteq> []"
  shows "\<exists>pod'. injectEnvVars mi pod model opts = Inr pod'
           \<and> map containerName (Containers pod') = map containerName (Containers pod)"
proof -
  have "i < length (Containers pod)"
    if "i = (if ContainerName opts \<noteq> []
                then (case containerIndex (Containers pod) (ContainerName opts) of
                        Some i \<Rightarrow> i | None \<Rightarrow> 0)
                else 0)" for i
    using that assms by (auto split: option.splits dest: containerIndex_Some)
  then show ?thesis using assms
    by (simp add: injectEnvVars_def Let_def names_update)
qed

lemma noTarget_cong:
  "map containerName cs = map containerName cs' \<Longrightarrow> noTarget opts cs = noTarget opts cs'"
  using containerIndex_cong [of cs cs'] by (auto simp: noTarget_def)

lemma injectModel_blank:
  "TrimSpace raw = [] \<Longrightarrow> injectModel mi c ns opts raw pod = Inr pod"
  by (simp add: injectModel_def)





lemma injectModel_Inl:
  "injectModel mi c ns opts raw pod = Inl resp \<Longrightarrow> isDenied resp"
  by (auto simp: injectModel_def Let_def isDenied_def split: if_splits sum.splits)

lemma injectModel_Inr:
  assumes "injectModel mi c ns opts raw pod = Inr pod'"
  shows "map containerName (Containers pod') = map containerName (Containers pod)"
    and "TrimSpace raw \<noteq> [] \<Longrightarrow> \<not> unusable mi c ns (TrimSpace raw)"
    and "TrimSpace raw \<noteq> [] \<Longrightarrow> \<not> noTarget opts (Containers pod)"
proof -
  show "map containerName (Containers pod') = map containerName (Containers pod)"
  proof (cases "TrimSpace raw = []")
    case True
    then show ?thesis using assms by (simp add: injectModel_blank)
  next
    case False
    then obtain model pod1 where
      v: "injectVolumeMount mi (injectVolume pod model) model opts = Inr pod1"
      and e: "pod' = pod1 \<or> injectEnvVars mi pod1 model opts = Inr pod'"
      using assms
      by (auto simp: injectModel_def Let_def split: if_splits sum.splits)
    have n1: "map containerName (Containers pod1) = map containerName (Containers pod)"
      using injectVolumeMount_names [OF v] by simp
    have "Containers (injectVolume pod model) \<noteq> []"
      using v by (auto simp: injectVolumeMount_def)
    then have "Containers pod1 \<noteq> []" using n1 by auto
    from injectEnvVars_ok [OF this, of mi model opts] e n1 show ?thesis by auto
  qed
  show "\<not> unusable mi c ns (TrimSpace raw)" if "TrimSpace raw \<noteq> []"
    using assms that
    by (auto simp: injectModel_def Let_def unusable_def split: if_splits sum.splits)
  show "\<not> noTarget opts (Containers pod)" if "TrimSpace raw \<noteq> []"
  proof
    assume nt: "noTarget opts (Containers pod)"
    have "isl (injectVolumeMount mi (injectVolume pod model) model opts)" for model
      using nt by (subst injectVolumeMount_error) (auto simp: noTarget_def)
    then have ni: "injectVolumeMount mi (injectVolume pod model) model opts \<noteq> Inr p" for model p
      by (metis sum.disc(2))
    show False using assms that
      by (auto simp: injectModel_def Let_def ni split: if_splits sum.splits)
  qed
qed





lemma Split_eval:
  "Split ''m1'' '','' = [''m1'']" "Split '','' '','' = [[], []]" "Split '' '' '','' = ['' '']"
  "Split [] '','' = [[]]"
  by code_simp+

lemma TrimSpace_eval:
  "TrimSpace ''m1'' = ''m1''" "TrimSpace [] = []" "TrimSpace '' '' = []"
  by code_simp+

lemma EnvVarPrefix_m1: "EnvVarPrefix id ''m1'' = ''MODEL_M1''"
  by code_simp



lemma Handle_requested:
  assumes "reqObject req = Inr pod" and "Labels pod LabelInjected \<noteq> Some ''true''"
    and "Annotations pod AnnotationInject = Some a" and "a \<noteq> []"
  shows "Handle mi c req =
     (case injectModels mi c (reqNamespace req) (parseOptions (Annotations pod))
             (Split a '','') pod of
        Inl resp \<Rightarrow> resp
      | Inr pod' \<Rightarrow>
          (case marshalFault mi of
             Some err \<Rightarrow> Errored StatusInternalServerError err
           | None \<Rightarrow> Patched (pod'\<lparr>Labels := (Labels pod')(LabelInjected \<mapsto> ''true'')\<rparr>)))"
  using assms by (simp add: Handle_def Let_def split: sum.splits)




lemma injectModels_Inl_denied:
  "injectModels mi c ns opts rs pod = Inl resp \<Longrightarrow> isDenied resp"
  by (induction rs arbitrary: pod) (auto split: sum.splits dest: injectModel_Inl)

lemma isDenied_Patched [simp]: "\<not> isDenied (Patched p)"
  by (simp add: isDenied_def)

lemma Handle_git_example:
  "Handle exInjector (exCluster (readyModel gitSource) Map.empty Map.empty)
     (exRequest (exPod [AnnotationInject \<mapsto> ''m1''] [mainContainer])) =
   Patched \<lparr> Labels = [LabelInjected \<mapsto> ''true''],
             Annotations = [AnnotationInject \<mapsto> ''m1''],
             Volumes = [\<lparr> volName = ''model-m1'',
                          volSource = PersistentVolumeClaimSource ''model-m1'' True \<rparr>],
             Containers =
               [\<lparr> containerName = ''main'',
                   VolumeMounts = [\<lparr> vmName = ''model-m1'', vmMountPath = ''/models/m1'',
                                      vmReadOnly = True \<rparr>],
                   Env = [\<lparr> envName = ''MODEL_M1_NAME'', envValue = ''m1'' \<rparr>,
                          \<lparr> envName = ''MODEL_M1_MOUNT_PATH'', envValue = ''/models/m1'' \<rparr>,
                          \<lparr> envName = ''MODEL_M1_VERSION'', envValue = ''1.0'' \<rparr>] \<rparr>] \<rparr>"
  by (simp add: Handle_def exRequest_def exPod_def Split_eval TrimSpace_eval injectModel_def
        exCluster_def exKey_def clientGet_def injectVolume_def injectVolumeMount_def
        injectEnvVars_def exInjector_def readyModel_def exModel_def emptyStatus_def
        gitSource_def noSource_def parseOptions_def EnvVarPrefix_m1 DefaultMountPath_def
        VolumeName_def VolumePrefix_def PVCName_def PVCPrefix_def
        mainContainer_def Let_def)


lemma injectModel_ok:
  assumes "TrimSpace raw \<noteq> []" and "\<not> unusable mi c ns (TrimSpace raw)"
    and "\<not> noTarget opts (Containers pod)"
  shows "\<exists>pod'. injectModel mi c ns opts raw pod = Inr pod'"
proof -
  obtain model where g: "clientGet (getFault mi) (models c) (ns, TrimSpace raw) = Inr model"
      "Phase (Status model) = ModelPhaseReady"
    using assms(2) by (auto simp: unusable_def split: sum.splits)
  have "\<not> isl (injectVolumeMount mi (injectVolume pod model) model opts)"
    using assms(3) by (subst injectVolumeMount_error) (auto simp: noTarget_def)
  then obtain pod1 where v: "injectVolumeMount mi (injectVolume pod model) model opts = Inr pod1"
    by (cases "injectVolumeMount mi (injectVolume pod model) model opts") auto
  have "map containerName (Containers pod1) = map containerName (Containers pod)"
    using injectVolumeMount_names [OF v] by simp
  moreover have "Containers pod \<noteq> []" using assms(3) by (simp add: noTarget_def)
  ultimately have "Containers pod1 \<noteq> []" by auto
  then obtain pod2 where e: "injectEnvVars mi pod1 model opts = Inr pod2"
    using injectEnvVars_ok [of pod1 mi model opts] by blast
  show ?thesis using assms(1) g v e by (simp add: injectModel_def)
qed

lemma injectModels_ok:
  assumes "\<forall>raw \<in> set rs. TrimSpace raw \<noteq> [] \<longrightarrow> \<not> unusable mi c ns (TrimSpace raw)"
    and "(\<forall>raw \<in> set rs. TrimSpace raw = []) \<or> \<not> noTarget opts (Containers pod)"
  shows "\<exists>pod'. injectModels mi c ns opts rs pod = Inr pod'"
  using assms
proof (induction rs arbitrary: pod)
  case Nil
  then show ?case by simp
next
  case (Cons raw rs)
  show ?case
  proof (cases "TrimSpace raw = []")
    case True
    then have "injectModel mi c ns opts raw pod = Inr pod" by (rule injectModel_blank)
    moreover have "\<exists>pod'. injectModels mi c ns opts rs pod = Inr pod'"
      using Cons.prems True by (intro Cons.IH) auto
    ultimately show ?thesis by simp
  next
    case False
    then have nt: "\<not> noTarget opts (Containers pod)" using Cons.prems(2) by auto
    have u: "\<not> unusable mi c ns (TrimSpace raw)" using Cons.prems(1) False by simp
    obtain pod' where p: "injectModel mi c ns opts raw pod = Inr pod'"
      using injectModel_ok [OF False u nt] by blast
    have "noTarget opts (Containers pod') = noTarget opts (Containers pod)"
      using noTarget_cong [OF injectModel_Inr(1) [OF p]] .
    then have "\<exists>pod''. injectModels mi c ns opts rs pod' = Inr pod''"
      using Cons.prems nt by (intro Cons.IH) auto
    then show ?thesis using p by simp
  qed
qed

lemma Handle_patched:
  assumes "reqObject req = Inr pod" and "Labels pod LabelInjected \<noteq> Some ''true''"
    and "Annotations pod AnnotationInject = Some a" and "a \<noteq> []"
    and "\<forall>x \<in> set (referencedNames pod). \<not> unusable mi c (reqNamespace req) x"
    and "referencedNames pod = []
         \<or> \<not> noTarget (parseOptions (Annotations pod)) (Containers pod)"
    and "marshalFault mi = None"
  shows "\<exists>pod'. Handle mi c req = Patched pod'"
proof -
  have n: "referencedNames pod = filter (\<lambda>n. n \<noteq> []) (map TrimSpace (Split a '',''))"
    using assms(3) by (simp add: referencedNames_def)
  have 1: "\<forall>raw \<in> set (Split a '',''). TrimSpace raw \<noteq> []
             \<longrightarrow> \<not> unusable mi c (reqNamespace req) (TrimSpace raw)"
    using assms(5) unfolding n by auto
  have 2: "(\<forall>raw \<in> set (Split a '',''). TrimSpace raw = [])
           \<or> \<not> noTarget (parseOptions (Annotations pod)) (Containers pod)"
    using assms(6) unfolding n by (auto simp: filter_empty_conv)
  obtain pod1 where "injectModels mi c (reqNamespace req) (parseOptions (Annotations pod))
      (Split a '','') pod = Inr pod1"
    using injectModels_ok [OF 1 2] by blast
  then show ?thesis
    using Handle_requested [OF assms(1,2,3,4), of mi c] assms(7) by simp
qed


section \<open>Admission\<close>

text \<open>
  C8. A request whose Pod carries the injected label with value "true", or has no
  inject annotation or an empty one, is allowed with no patch. A pass that ends
  in a patch has put the label "true" on the Pod, and the handler, given that Pod
  again, allows it with no patch as already injected. And a pass does end in a
  patch, with the label on it: when the Pod is not yet labelled, its inject
  annotation is not empty, every name it lists can be read and is Ready, there is
  a container to mount into (or no name is listed at all), and the Pod can be
  marshalled.
\<close>
theorem handle_idempotent:
  "(reqObject req = Inr pod
     \<and> (Labels pod LabelInjected = Some ''true'' \<or> Annotations pod AnnotationInject = None
        \<or> Annotations pod AnnotationInject = Some [])
     \<longrightarrow> Handle mi c req =
           Allowed (if Labels pod LabelInjected = Some ''true'' then ''already injected''
                    else ''no injection requested''))
   \<and> (Handle mi c req = Patched pod'
     \<longrightarrow> Labels pod' LabelInjected = Some ''true''
         \<and> Handle mi' c' (req\<lparr>reqObject := Inr pod'\<rparr>) = Allowed ''already injected'')
   \<and> (reqObject req = Inr pod \<and> Labels pod LabelInjected \<noteq> Some ''true''
      \<and> Annotations pod AnnotationInject = Some a \<and> a \<noteq> []
      \<and> (\<forall>x \<in> set (referencedNames pod). \<not> unusable mi c (reqNamespace req) x)
      \<and> (referencedNames pod = []
          \<or> \<not> noTarget (parseOptions (Annotations pod)) (Containers pod))
      \<and> marshalFault mi = None
     \<longrightarrow> (case Handle mi c req of
            Patched p \<Rightarrow>
              Labels p LabelInjected = Some ''true''
              \<and> Handle mi' c' (req\<lparr>reqObject := Inr p\<rparr>) = Allowed ''already injected''
          | _ \<Rightarrow> False))"
proof -
  have 1: "Handle mi c req =
           Allowed (if Labels pod LabelInjected = Some ''true'' then ''already injected''
                    else ''no injection requested'')"
    if "reqObject req = Inr pod
     \<and> (Labels pod LabelInjected = Some ''true'' \<or> Annotations pod AnnotationInject = None
        \<or> Annotations pod AnnotationInject = Some [])"
    using that by (auto simp: Handle_def)
  have 2: "Labels p LabelInjected = Some ''true''
         \<and> Handle mi' c' (req\<lparr>reqObject := Inr p\<rparr>) = Allowed ''already injected''"
    if h: "Handle mi c req = Patched p" for p
  proof -
    have l: "Labels p LabelInjected = Some ''true''"
      using h by (auto simp: Handle_def Let_def split: sum.splits if_splits option.splits
          dest: injectModels_Inl_denied)
    then show ?thesis by (simp add: Handle_def)
  qed
  have 3: "(case Handle mi c req of
            Patched p \<Rightarrow>
              Labels p LabelInjected = Some ''true''
              \<and> Handle mi' c' (req\<lparr>reqObject := Inr p\<rparr>) = Allowed ''already injected''
          | _ \<Rightarrow> False)"
    if h3: "reqObject req = Inr pod \<and> Labels pod LabelInjected \<noteq> Some ''true''
      \<and> Annotations pod AnnotationInject = Some a \<and> a \<noteq> []
      \<and> (\<forall>x \<in> set (referencedNames pod). \<not> unusable mi c (reqNamespace req) x)
      \<and> (referencedNames pod = []
          \<or> \<not> noTarget (parseOptions (Annotations pod)) (Containers pod))
      \<and> marshalFault mi = None"
  proof -
    have "\<exists>p. Handle mi c req = Patched p"
      by (rule Handle_patched [of req pod a mi c]) (simp_all add: h3)
    then obtain p where p: "Handle mi c req = Patched p" ..
    show ?thesis using 2 [OF p] p by simp
  qed
  show ?thesis
    apply (intro conjI)
    subgoal using 1 by blast
    subgoal using 2 by blast
    subgoal using 3 by blast
    done
qed


theorem handle_idempotent_witness:
  "Handle exInjector emptyCluster (exRequest (exPod Map.empty [mainContainer]))
     = Allowed ''no injection requested''
   \<and> Handle exInjector emptyCluster
       (exRequest ((exPod [AnnotationInject \<mapsto> ''m1''] [mainContainer])
                     \<lparr>Labels := [LabelInjected \<mapsto> ''true'']\<rparr>))
     = Allowed ''already injected''
   \<and> Handle exInjector emptyCluster
       ((exRequest (exPod [AnnotationInject \<mapsto> ''m1''] [mainContainer]))
          \<lparr>reqObject := Inr
            \<lparr> Labels = [LabelInjected \<mapsto> ''true''],
              Annotations = [AnnotationInject \<mapsto> ''m1''],
              Volumes = [\<lparr> volName = ''model-m1'',
                           volSource = PersistentVolumeClaimSource ''model-m1'' True \<rparr>],
              Containers =
                [\<lparr> containerName = ''main'',
                    VolumeMounts = [\<lparr> vmName = ''model-m1'', vmMountPath = ''/models/m1'',
                                       vmReadOnly = True \<rparr>],
                    Env = [\<lparr> envName = ''MODEL_M1_NAME'', envValue = ''m1'' \<rparr>,
                           \<lparr> envName = ''MODEL_M1_MOUNT_PATH'', envValue = ''/models/m1'' \<rparr>,
                           \<lparr> envName = ''MODEL_M1_VERSION'', envValue = ''1.0'' \<rparr>] \<rparr>] \<rparr>\<rparr>)
     = Allowed ''already injected''
   \<and> (case Handle exInjector (exCluster (readyModel hfSource) Map.empty Map.empty)
              (exRequest (exPod [AnnotationInject \<mapsto> ''m1''] [mainContainer])) of
         Patched p \<Rightarrow>
           Labels p LabelInjected = Some ''true''
           \<and> Handle exInjector emptyCluster
               ((exRequest (exPod [AnnotationInject \<mapsto> ''m1''] [mainContainer]))
                  \<lparr>reqObject := Inr p\<rparr>) = Allowed ''already injected''
       | _ \<Rightarrow> False)"
proof -
  let ?p1 = "exPod Map.empty [mainContainer]"
  let ?p2 = "(exPod [AnnotationInject \<mapsto> ''m1''] [mainContainer])
                     \<lparr>Labels := [LabelInjected \<mapsto> ''true'']\<rparr>"
  let ?p3 = "exPod [AnnotationInject \<mapsto> ''m1''] [mainContainer]"
  let ?c3 = "exCluster (readyModel hfSource) Map.empty Map.empty"
  have a1: "reqObject (exRequest ?p1) = Inr ?p1
     \<and> (Labels ?p1 LabelInjected = Some ''true'' \<or> Annotations ?p1 AnnotationInject = None
        \<or> Annotations ?p1 AnnotationInject = Some [])"
    by (simp add: exRequest_def exPod_def)
  have a2: "reqObject (exRequest ?p2) = Inr ?p2
     \<and> (Labels ?p2 LabelInjected = Some ''true'' \<or> Annotations ?p2 AnnotationInject = None
        \<or> Annotations ?p2 AnnotationInject = Some [])"
    by (simp add: exRequest_def exPod_def)
  have n3: "referencedNames ?p3 = [''m1'']"
    by (simp add: referencedNames_def exPod_def Split_eval TrimSpace_eval)
  have u3: "\<not> unusable exInjector ?c3 (reqNamespace (exRequest ?p3)) ''m1''"
    by (simp add: unusable_def clientGet_def exInjector_def exCluster_def exKey_def
        exRequest_def readyModel_def exModel_def)
  have t3: "\<not> noTarget (parseOptions (Annotations ?p3)) (Containers ?p3)"
    by (simp add: noTarget_def parseOptions_def exPod_def)
  have a3: "reqObject (exRequest ?p3) = Inr ?p3 \<and> Labels ?p3 LabelInjected \<noteq> Some ''true''
      \<and> Annotations ?p3 AnnotationInject = Some ''m1'' \<and> ''m1'' \<noteq> []
      \<and> (\<forall>x \<in> set (referencedNames ?p3).
            \<not> unusable exInjector ?c3 (reqNamespace (exRequest ?p3)) x)
      \<and> (referencedNames ?p3 = []
          \<or> \<not> noTarget (parseOptions (Annotations ?p3)) (Containers ?p3))
      \<and> marshalFault exInjector = None"
    unfolding n3 using u3 t3 by (simp add: exRequest_def exPod_def exInjector_def)
  have l1: "Labels ?p1 LabelInjected \<noteq> Some ''true''" by (simp add: exPod_def)
  have l2: "Labels ?p2 LabelInjected = Some ''true''" by (simp add: exPod_def)
  have b1: "Handle exInjector emptyCluster (exRequest ?p1) = Allowed ''no injection requested''"
    using handle_idempotent [where req = "exRequest ?p1" and pod = ?p1 and mi = exInjector
        and c = emptyCluster, THEN conjunct1, THEN mp, OF a1] l1
    by simp
  have b2: "Handle exInjector emptyCluster (exRequest ?p2) = Allowed ''already injected''"
    using handle_idempotent [where req = "exRequest ?p2" and pod = ?p2 and mi = exInjector
        and c = emptyCluster, THEN conjunct1, THEN mp, OF a2] l2
    by simp
  note b3 = handle_idempotent [where mi' = exInjector and c' = emptyCluster, THEN conjunct2,
      THEN conjunct1, THEN mp, OF Handle_git_example, THEN conjunct2]
  note b4 = handle_idempotent [where req = "exRequest ?p3" and pod = ?p3 and mi = exInjector
      and c = ?c3 and a = "''m1''" and mi' = exInjector and c' = emptyCluster,
      THEN conjunct2, THEN conjunct2, THEN mp, OF a3]
  from b1 b2 b3 b4 show ?thesis by (intro conjI)
qed







text \<open>
  C2 at a Ready Model whose only source is a Git repository: the handler injects
  the name, the mount path and the version, and no source-type pair, although
  the download Job builder knows the Git source.
\<close>
theorem git_source_env_vars:
  "Handle exInjector (exCluster (readyModel gitSource) Map.empty Map.empty)
     (exRequest (exPod [AnnotationInject \<mapsto> ''m1''] [mainContainer])) =
   Patched \<lparr> Labels = [LabelInjected \<mapsto> ''true''],
             Annotations = [AnnotationInject \<mapsto> ''m1''],
             Volumes = [\<lparr> volName = ''model-m1'',
                          volSource = PersistentVolumeClaimSource ''model-m1'' True \<rparr>],
             Containers =
               [\<lparr> containerName = ''main'',
                   VolumeMounts = [\<lparr> vmName = ''model-m1'', vmMountPath = ''/models/m1'',
                                      vmReadOnly = True \<rparr>],
                   Env = [\<lparr> envName = ''MODEL_M1_NAME'', envValue = ''m1'' \<rparr>,
                          \<lparr> envName = ''MODEL_M1_MOUNT_PATH'', envValue = ''/models/m1'' \<rparr>,
                          \<lparr> envName = ''MODEL_M1_VERSION'', envValue = ''1.0'' \<rparr>] \<rparr>] \<rparr>
   \<and> Git (Source (Spec (readyModel gitSource)))
       = Some \<lparr> gitURL = ''https://example.com/r.git'', gitRef = ''v1'' \<rparr>
   \<and> map_sum id jobImage (BuildDownloadJob (readyModel gitSource)) = Inr gitImage"
proof (intro conjI)
  show "Git (Source (Spec (readyModel gitSource)))
       = Some \<lparr> gitURL = ''https://example.com/r.git'', gitRef = ''v1'' \<rparr>"
    by (simp add: readyModel_def exModel_def gitSource_def noSource_def)
  show "map_sum id jobImage (BuildDownloadJob (readyModel gitSource)) = Inr gitImage"
    by (simp add: BuildDownloadJob_def readyModel_def exModel_def gitSource_def noSource_def
          Let_def)
qed (rule Handle_git_example)

end
